theory Spec2Isabelle
  imports Complex_Main
begin

section \<open>Values of the webhook handler\<close>

text \<open>
  The module \<^verbatim>\<open>server.py\<close> is a Flask application with one trading endpoint,
  \<^verbatim>\<open>webhook\<close>, and three helpers: \<^verbatim>\<open>get_symbol_info\<close>,
  \<^verbatim>\<open>adjust_quantity\<close> and \<^verbatim>\<open>close_position_for_symbol\<close>.

  Conventions of the embedding.
  \<^item> A Python float is the real number it denotes, and float arithmetic is the exact
    operation followed by \<open>binary64\<close>, the rounding to the nearest double (ties to the
    even mantissa). The exponent range is not bounded: overflow, subnormal numbers, NaN and
    infinity are outside the model. Comparisons, \<^verbatim>\<open>abs\<close> and \<^verbatim>\<open>math.floor\<close> are exact.
    A string that \<^verbatim>\<open>float\<close> parses yields a double.
  \<^item> Strings are byte strings, and the strings of a request are ASCII; \<^verbatim>\<open>str.upper\<close>
    is modelled on ASCII letters.
  \<^item> \<^verbatim>\<open>float\<close> applied to a string is a builtin of the language, not code of this
    module: it is a parameter \<open>float_of_str\<close> of the environment, \<open>None\<close> standing for
    the \<^verbatim>\<open>ValueError\<close> it raises.
  \<^item> The Binance client is a collaborator: every method is a function of the history of
    calls made so far, returning a value or raising an exception. Its replies are taken to
    be well formed (an order reply has its \<^verbatim>\<open>orderId\<close>, a position its \<^verbatim>\<open>symbol\<close> and
    \<^verbatim>\<open>positionAmt\<close>), and a decimal string in them is given by the double that
    \<^verbatim>\<open>float\<close> makes of it.
  \<^item> The state threaded through the functions holds the trace of exchange calls with their
    replies, the log records, and the module-level \<^verbatim>\<open>symbol_info_cache\<close>.
\<close>

datatype json =
    JNull
  | JBool bool
  | JNum real
  | JStr string
  | JArr "json list"
  | JObj "string \<Rightarrow> json option"

datatype value_error =
    CouldNotConvert string
  | NoSymbolInfo string
  | MathDomainError

datatype pyexc =
    KeyError string
  | ValueError value_error
  | TypeError
  | AttributeError
  | ZeroDivisionError
  | OverflowError
  | StopIteration
  | BinanceAPIException int string
  | OtherException string

datatype side = BUY | SELL

datatype order_type = MARKET | TRAILING_STOP_MARKET

record order =
  o_symbol :: string
  o_side :: side
  o_type :: order_type
  o_quantity :: real
  o_callbackRate :: "real option"
  o_workingType :: "string option"

record position =
  p_symbol :: string
  positionAmt :: real

record sym_filter =
  filterType :: string
  params :: "(string \<times> real) list"

record symbol_entry =
  s_symbol :: string
  filters :: "sym_filter list"

record symbol_info =
  tickSize :: real
  stepSize :: real
  minQty :: real

subsection \<open>The exchange client and the trace of calls\<close>

datatype call =
    PositionInformation string
  | CancelAllOpenOrders string
  | CreateOrder order
  | ChangeLeverage string int
  | MarkPrice string
  | ExchangeInfo

datatype reply =
    Raised pyexc
  | Positions "position list"
  | Cancelled
  | OrderAck int
  | LeverageChanged
  | MarkPriceIs real
  | Instruments "symbol_entry list"

type_synonym event = "call \<times> reply"

record exchange =
  futures_position_information :: "event list \<Rightarrow> string \<Rightarrow> pyexc + position list"
  futures_cancel_all_open_orders :: "event list \<Rightarrow> string \<Rightarrow> pyexc + unit"
  futures_create_order :: "event list \<Rightarrow> order \<Rightarrow> pyexc + int"
  futures_change_leverage :: "event list \<Rightarrow> string \<Rightarrow> int \<Rightarrow> pyexc + unit"
  futures_mark_price :: "event list \<Rightarrow> string \<Rightarrow> pyexc + real"
  futures_exchange_info :: "event list \<Rightarrow> pyexc + symbol_entry list"

record environment =
  client :: exchange
  WEBHOOK_SECRET :: string
  float_of_str :: "string \<Rightarrow> real option"

subsection \<open>Logging and the process state\<close>

datatype level = INFO | WARNING | ERROR

datatype log_msg =
    LogFetchingFilters string
  | LogFilterError string pyexc
  | LogQuantityBelowMin real real
  | LogNoPosition string
  | LogCancelledOrders string
  | LogClosing string side real
  | LogClosed string int
  | LogLikelyClosed string pyexc
  | LogCloseApiError string pyexc
  | LogCloseUnexpected string pyexc
  | LogWebhookReceived
  | LogUnauthorized
  | LogCloseFailedAbort string
  | LogQuantityTooSmall real
  | LogOpening side real string
  | LogOrderSent int
  | LogTrailingStop real int
  | LogOpenApiError pyexc
  | LogOpenUnexpected pyexc

record state =
  events :: "event list"
  logs :: "(level \<times> log_msg) list"
  symbol_info_cache :: "string \<Rightarrow> symbol_info option"

subsection \<open>Responses\<close>

datatype close_detail =
    NoPositionToClose
  | ClosedOrder int
  | LikelyAlreadyClosed
  | CloseError pyexc

datatype message =
    MsgMalformedJson
  | MsgUnauthorized
  | MsgMissingField pyexc
  | MsgException pyexc
  | MsgCloseFailed close_detail
  | MsgCloseBeforeOpenFailed
  | MsgQuantityTooSmall real
  | MsgInvalidOpenData pyexc
  | MsgUnknownAction string

datatype body =
    ErrorBody message
  | CloseSuccess string close_detail
  | OpenSuccess int
  | InternalServerError

record response =
  status_code :: nat
  payload :: body

section \<open>Sequencing: state, exceptions, calls\<close>

type_synonym 'a action = "state \<Rightarrow> (pyexc + 'a) \<times> state"

definition ret :: "'a \<Rightarrow> 'a action" where
  "ret x s = (Inr x, s)"

definition raise :: "pyexc \<Rightarrow> 'a action" where
  "raise e s = (Inl e, s)"

definition lift :: "pyexc + 'a \<Rightarrow> 'a action" where
  "lift r s = (r, s)"

definition bnd :: "'a action \<Rightarrow> ('a \<Rightarrow> 'b action) \<Rightarrow> 'b action" where
  "bnd m f s = (case m s of (Inl e, s') \<Rightarrow> (Inl e, s') | (Inr x, s') \<Rightarrow> f x s')"

definition log_to :: "level \<Rightarrow> log_msg \<Rightarrow> state \<Rightarrow> state" where
  "log_to l m s = s\<lparr>logs := logs s @ [(l, m)]\<rparr>"

definition logging :: "level \<Rightarrow> log_msg \<Rightarrow> unit action" where
  "logging l m s = (Inr (), log_to l m s)"

definition to_reply :: "('a \<Rightarrow> reply) \<Rightarrow> pyexc + 'a \<Rightarrow> reply" where
  "to_reply wrap r = (case r of Inl e \<Rightarrow> Raised e | Inr v \<Rightarrow> wrap v)"

definition futures_call :: "call \<Rightarrow> (event list \<Rightarrow> pyexc + 'a) \<Rightarrow> ('a \<Rightarrow> reply) \<Rightarrow> 'a action" where
  "futures_call c f wrap s =
     (let r = f (events s) in (r, s\<lparr>events := events s @ [(c, to_reply wrap r)]\<rparr>))"

definition call_position_information :: "environment \<Rightarrow> string \<Rightarrow> position list action" where
  "call_position_information env symbol =
     futures_call (PositionInformation symbol)
       (\<lambda>h. futures_position_information (client env) h symbol) Positions"

definition call_cancel_all_open_orders :: "environment \<Rightarrow> string \<Rightarrow> unit action" where
  "call_cancel_all_open_orders env symbol =
     futures_call (CancelAllOpenOrders symbol)
       (\<lambda>h. futures_cancel_all_open_orders (client env) h symbol) (\<lambda>_. Cancelled)"

definition call_create_order :: "environment \<Rightarrow> order \<Rightarrow> int action" where
  "call_create_order env ord =
     futures_call (CreateOrder ord) (\<lambda>h. futures_create_order (client env) h ord) OrderAck"

definition call_change_leverage :: "environment \<Rightarrow> string \<Rightarrow> int \<Rightarrow> unit action" where
  "call_change_leverage env symbol leverage =
     futures_call (ChangeLeverage symbol leverage)
       (\<lambda>h. futures_change_leverage (client env) h symbol leverage) (\<lambda>_. LeverageChanged)"

definition call_mark_price :: "environment \<Rightarrow> string \<Rightarrow> real action" where
  "call_mark_price env symbol =
     futures_call (MarkPrice symbol) (\<lambda>h. futures_mark_price (client env) h symbol) MarkPriceIs"

definition call_exchange_info :: "environment \<Rightarrow> symbol_entry list action" where
  "call_exchange_info env =
     futures_call ExchangeInfo (\<lambda>h. futures_exchange_info (client env) h) Instruments"

section \<open>Builtins of the language\<close>

definition upper_char :: "char \<Rightarrow> char" where
  "upper_char c =
     (case map_of (zip ''abcdefghijklmnopqrstuvwxyz'' ''ABCDEFGHIJKLMNOPQRSTUVWXYZ'') c of
        Some u \<Rightarrow> u
      | None \<Rightarrow> c)"

definition upper :: "string \<Rightarrow> string" where
  "upper s = map upper_char s"

text \<open>\<^verbatim>\<open>data[k].upper()\<close>: a missing key raises \<^verbatim>\<open>KeyError\<close>, a value that is not a
  string has no method \<^verbatim>\<open>upper\<close>.\<close>

definition get_upper :: "(string \<Rightarrow> json option) \<Rightarrow> string \<Rightarrow> pyexc + string" where
  "get_upper data k =
     (case data k of
        None \<Rightarrow> Inl (KeyError k)
      | Some (JStr s) \<Rightarrow> Inr (upper s)
      | Some _ \<Rightarrow> Inl AttributeError)"

definition get_item :: "(string \<Rightarrow> json option) \<Rightarrow> string \<Rightarrow> pyexc + json" where
  "get_item data k = (case data k of None \<Rightarrow> Inl (KeyError k) | Some v \<Rightarrow> Inr v)"

text \<open>\<^verbatim>\<open>int(x)\<close> on a float truncates toward zero.\<close>

definition py_int :: "real \<Rightarrow> int" where
  "py_int r = (if 0 \<le> r then \<lfloor>r\<rfloor> else \<lceil>r\<rceil>)"

text \<open>\<^verbatim>\<open>round(x, 0)\<close> rounds to the nearest integer, ties to the even one.\<close>

definition py_round :: "real \<Rightarrow> int" where
  "py_round x =
     (let f = \<lfloor>x\<rfloor>; d = x - of_int f
      in if d < 1 / 2 then f else if 1 / 2 < d then f + 1 else if even f then f else f + 1)"

text \<open>Rounding to the nearest double: a non-zero \<open>x\<close> with \<open>2\<^sup>e \<le> \<bar>x\<bar> < 2\<^sup>e\<^sup>+\<^sup>1\<close> is
  rounded to a multiple of \<open>2\<^sup>e\<^sup>-\<^sup>5\<^sup>2\<close>, ties going to the even multiple.\<close>

definition binary64 :: "real \<Rightarrow> real" where
  "binary64 x =
     (if x = 0 then 0
      else let e = \<lfloor>log 2 \<bar>x\<bar>\<rfloor>; ulp = 2 powi (e - 52)
           in of_int (py_round (x / ulp)) * ulp)"

text \<open>\<^verbatim>\<open>math.log(x, 10)\<close> raises \<^verbatim>\<open>ValueError\<close> outside its domain. Its value is taken
  exactly: it is used only through \<^verbatim>\<open>round\<close>, which an error in the last places
  changes only when the logarithm is that close to a half-integer.\<close>

definition math_log10 :: "real \<Rightarrow> pyexc + real" where
  "math_log10 x = (if x \<le> 0 then Inl (ValueError MathDomainError) else Inr (log 10 x))"

text \<open>Float division.\<close>

definition py_div :: "real \<Rightarrow> real \<Rightarrow> pyexc + real" where
  "py_div a b = (if b = 0 then Inl ZeroDivisionError else Inr (binary64 (a / b)))"

text \<open>\<^verbatim>\<open>float(v)\<close> on a JSON value. A number is given by the exact value of its
  literal: \<^verbatim>\<open>float\<close> yields the nearest double, and raises \<^verbatim>\<open>OverflowError\<close> beyond
  the range of doubles, as it does on an int (a float literal beyond the range, which the
  parser reads as infinity, is outside the model). A boolean converts, a string is parsed,
  \<^verbatim>\<open>None\<close>, lists and dicts raise \<^verbatim>\<open>TypeError\<close>.\<close>

fun py_float :: "(string \<Rightarrow> real option) \<Rightarrow> json \<Rightarrow> pyexc + real" where
  "py_float p (JNum r) =
     (if 2 ^ 1024 \<le> \<bar>binary64 r\<bar> then Inl OverflowError else Inr (binary64 r))"
| "py_float p (JBool b) = Inr (if b then 1 else 0)"
| "py_float p (JStr s) =
     (case p s of Some r \<Rightarrow> Inr r | None \<Rightarrow> Inl (ValueError (CouldNotConvert s)))"
| "py_float p JNull = Inl TypeError"
| "py_float p (JArr xs) = Inl TypeError"
| "py_float p (JObj m) = Inl TypeError"

section \<open>The helper functions\<close>

subsection \<open>\<^verbatim>\<open>get_symbol_info\<close>\<close>

text \<open>\<^verbatim>\<open>float(next(f[key] for f in s['filters'] if f['filterType'] == ftype))\<close>: the
  first filter of that type is taken; \<^verbatim>\<open>next\<close> raises \<^verbatim>\<open>StopIteration\<close> when there is
  none, and the subscript raises \<^verbatim>\<open>KeyError\<close> when that filter lacks the key.\<close>

definition filter_param :: "string \<Rightarrow> string \<Rightarrow> sym_filter list \<Rightarrow> pyexc + real" where
  "filter_param ftype key fs =
     (case find (\<lambda>f. filterType f = ftype) fs of
        None \<Rightarrow> Inl StopIteration
      | Some f \<Rightarrow> (case map_of (params f) key of None \<Rightarrow> Inl (KeyError key) | Some v \<Rightarrow> Inr v))"

definition cache_put :: "string \<Rightarrow> symbol_info \<Rightarrow> unit action" where
  "cache_put symbol info s =
     (Inr (), s\<lparr>symbol_info_cache := (symbol_info_cache s)(symbol \<mapsto> info)\<rparr>)"

text \<open>The loop over \<^verbatim>\<open>exchange_info['symbols']\<close>: the first entry of that symbol fills
  the cache and ends the loop; no entry leaves the cache as it is.\<close>

definition store_filters :: "string \<Rightarrow> symbol_entry list \<Rightarrow> unit action" where
  "store_filters symbol entries =
     (case find (\<lambda>e. s_symbol e = symbol) entries of
        None \<Rightarrow> ret ()
      | Some e \<Rightarrow>
          bnd (lift (filter_param ''PRICE_FILTER'' ''tickSize'' (filters e))) (\<lambda>tick.
          bnd (lift (filter_param ''LOT_SIZE'' ''stepSize'' (filters e))) (\<lambda>step.
          bnd (lift (filter_param ''LOT_SIZE'' ''minQty'' (filters e))) (\<lambda>minq.
          cache_put symbol \<lparr>tickSize = tick, stepSize = step, minQty = minq\<rparr>))))"

definition fetch_filters :: "environment \<Rightarrow> string \<Rightarrow> unit action" where
  "fetch_filters env symbol =
     bnd (logging INFO (LogFetchingFilters symbol)) (\<lambda>_.
     bnd (call_exchange_info env) (\<lambda>exchange_info.
     store_filters symbol exchange_info))"

text \<open>Only \<^verbatim>\<open>BinanceAPIException\<close> is caught (the result is then \<^verbatim>\<open>None\<close>); the final
  \<^verbatim>\<open>return symbol_info_cache[symbol]\<close> raises \<^verbatim>\<open>KeyError\<close> when the loop stored
  nothing.\<close>

definition get_symbol_info :: "environment \<Rightarrow> string \<Rightarrow> symbol_info option action" where
  "get_symbol_info env symbol s =
     (case symbol_info_cache s symbol of
        Some info \<Rightarrow> (Inr (Some info), s)
      | None \<Rightarrow>
          (case fetch_filters env symbol s of
             (Inl (BinanceAPIException c m), s') \<Rightarrow>
               (Inr None, log_to ERROR (LogFilterError symbol (BinanceAPIException c m)) s')
           | (Inl e, s') \<Rightarrow> (Inl e, s')
           | (Inr _, s') \<Rightarrow>
               (case symbol_info_cache s' symbol of
                  Some info \<Rightarrow> (Inr (Some info), s')
                | None \<Rightarrow> (Inl (KeyError symbol), s'))))"

subsection \<open>\<^verbatim>\<open>adjust_quantity\<close>\<close>

text \<open>Line 55, operation by operation. \<^verbatim>\<open>10**precision\<close> is an int for a precision
  that is not negative and a float otherwise (taken as the double nearest to the power).
  The product is a float product, the int being converted first. The quotient divides the
  int that \<^verbatim>\<open>math.floor\<close> returns: by the int, which gives the double nearest to the
  exact quotient, or by the float, after conversion of the dividend.\<close>

definition adjust_quantity :: "real \<Rightarrow> real \<Rightarrow> real \<Rightarrow> real action" where
  "adjust_quantity quantity step_size min_qty =
     bnd (lift (math_log10 step_size)) (\<lambda>l.
       let precision = py_round (- l);
           floored = \<lfloor>binary64 (quantity * binary64 (10 powi precision))\<rfloor>;
           formatted_quantity =
             (if 0 \<le> precision then binary64 (of_int floored / 10 ^ nat precision)
              else binary64 (binary64 (of_int floored) / binary64 (10 powi precision)))
       in if formatted_quantity < min_qty
          then bnd (logging ERROR (LogQuantityBelowMin formatted_quantity min_qty)) (\<lambda>_. ret 0)
          else ret formatted_quantity)"

subsection \<open>\<^verbatim>\<open>close_position_for_symbol\<close>\<close>

text \<open>\<^verbatim>\<open>futures_create_order(symbol=..., side=..., type='MARKET', quantity=...)\<close>:
  the keyword arguments of a market order, as both the close and the entry pass them.\<close>

definition market_order :: "string \<Rightarrow> side \<Rightarrow> real \<Rightarrow> order" where
  "market_order symbol side quantity =
     \<lparr>o_symbol = symbol, o_side = side, o_type = MARKET, o_quantity = quantity,
      o_callbackRate = None, o_workingType = None\<rparr>"

definition close_try :: "environment \<Rightarrow> string \<Rightarrow> (bool \<times> close_detail) action" where
  "close_try env symbol =
     bnd (call_position_information env symbol) (\<lambda>positions.
       case find (\<lambda>p. p_symbol p = symbol \<and> positionAmt p \<noteq> 0) positions of
         None \<Rightarrow>
           bnd (logging INFO (LogNoPosition symbol)) (\<lambda>_. ret (True, NoPositionToClose))
       | Some position \<Rightarrow>
           let position_amount = positionAmt position;
               side_to_close = (if position_amount > 0 then SELL else BUY);
               quantity_to_close = \<bar>position_amount\<bar>
           in
             bnd (call_cancel_all_open_orders env symbol) (\<lambda>_.
             bnd (logging INFO (LogCancelledOrders symbol)) (\<lambda>_.
             bnd (logging INFO (LogClosing symbol side_to_close quantity_to_close)) (\<lambda>_.
             bnd (call_create_order env
                    (market_order symbol side_to_close quantity_to_close)) (\<lambda>order_id.
             bnd (logging INFO (LogClosed symbol order_id)) (\<lambda>_.
             ret (True, ClosedOrder order_id)))))))"

fun close_except :: "string \<Rightarrow> pyexc \<Rightarrow> state \<Rightarrow> (bool \<times> close_detail) \<times> state" where
  "close_except symbol (BinanceAPIException c m) s =
     (if c = - 2022
      then ((True, LikelyAlreadyClosed),
            log_to WARNING (LogLikelyClosed symbol (BinanceAPIException c m)) s)
      else ((False, CloseError (BinanceAPIException c m)),
            log_to ERROR (LogCloseApiError symbol (BinanceAPIException c m)) s))"
| "close_except symbol e s =
     ((False, CloseError e), log_to ERROR (LogCloseUnexpected symbol e) s)"

definition close_position_for_symbol ::
  "environment \<Rightarrow> string \<Rightarrow> state \<Rightarrow> (bool \<times> close_detail) \<times> state" where
  "close_position_for_symbol env symbol s =
     (case close_try env symbol s of
        (Inr r, s') \<Rightarrow> (r, s')
      | (Inl e, s') \<Rightarrow> close_except symbol e s')"

section \<open>The endpoint \<^verbatim>\<open>webhook\<close>\<close>

text \<open>The \<^verbatim>\<open>try\<close> statement of the directional branch, in two parts. The first
  (lines 146 to 158) reads the fields and sizes the order; it yields the side, the
  trailing-stop percent, the raw quantity and the normalised quantity.\<close>

definition open_sizing ::
  "environment \<Rightarrow> (string \<Rightarrow> json option) \<Rightarrow> string \<Rightarrow> string \<Rightarrow>
   (side \<times> real \<times> real \<times> real) action" where
  "open_sizing env data symbol action =
     (let side = (if action \<in> set [''LONG'', ''BUY''] then BUY else SELL) in
      bnd (lift (get_item data ''lev'')) (\<lambda>lev.
      bnd (lift (py_float (float_of_str env) lev)) (\<lambda>lev_float.
      let leverage = py_int lev_float in
      bnd (lift (get_item data ''usdt'')) (\<lambda>usdt.
      bnd (lift (py_float (float_of_str env) usdt)) (\<lambda>usdt_amount.
      bnd (lift (py_float (float_of_str env)
                   (case data ''tsl'' of None \<Rightarrow> JNum 0 | Some v \<Rightarrow> v))) (\<lambda>tsl_percent.
      bnd (get_symbol_info env symbol) (\<lambda>info_opt.
      case info_opt of
        None \<Rightarrow> raise (ValueError (NoSymbolInfo symbol))
      | Some info \<Rightarrow>
      bnd (call_change_leverage env symbol leverage) (\<lambda>_.
      bnd (call_mark_price env symbol) (\<lambda>mark_price.
      bnd (lift (py_div (binary64 (usdt_amount * of_int leverage)) mark_price))
        (\<lambda>quantity_unformatted.
      bnd (adjust_quantity quantity_unformatted (stepSize info) (minQty info)) (\<lambda>quantity.
      ret (side, tsl_percent, quantity_unformatted, quantity))))))))))))"

text \<open>The second part (lines 160 to 177) rejects a quantity that is not positive, and
  otherwise submits the entry order and, for a percent in range, the trailing stop.\<close>

definition trailing_stop_order :: "string \<Rightarrow> side \<Rightarrow> real \<Rightarrow> real \<Rightarrow> order" where
  "trailing_stop_order symbol side quantity tsl_percent =
     (let tsl_side = (if side = BUY then SELL else BUY) in
      \<lparr>o_symbol = symbol, o_side = tsl_side, o_type = TRAILING_STOP_MARKET,
       o_quantity = quantity, o_callbackRate = Some tsl_percent,
       o_workingType = Some ''MARK_PRICE''\<rparr>)"

definition open_submit ::
  "environment \<Rightarrow> string \<Rightarrow> side \<times> real \<times> real \<times> real \<Rightarrow> response action" where
  "open_submit env symbol sized =
     (case sized of (side, tsl_percent, quantity_unformatted, quantity) \<Rightarrow>
      if quantity \<le> 0 then
        bnd (logging ERROR (LogQuantityTooSmall quantity_unformatted)) (\<lambda>_.
        ret \<lparr>status_code = 400,
             payload = ErrorBody (MsgQuantityTooSmall quantity_unformatted)\<rparr>)
      else
        bnd (logging INFO (LogOpening side quantity symbol)) (\<lambda>_.
        bnd (call_create_order env (market_order symbol side quantity)) (\<lambda>order_id.
        bnd (logging INFO (LogOrderSent order_id)) (\<lambda>_.
        bnd (if 1 / 10 \<le> tsl_percent \<and> tsl_percent \<le> 5 then
               bnd (call_create_order env
                      (trailing_stop_order symbol side quantity tsl_percent)) (\<lambda>tsl_order_id.
               logging INFO (LogTrailingStop tsl_percent tsl_order_id))
             else ret ()) (\<lambda>_.
        ret \<lparr>status_code = 200, payload = OpenSuccess order_id\<rparr>)))))"

definition open_try ::
  "environment \<Rightarrow> (string \<Rightarrow> json option) \<Rightarrow> string \<Rightarrow> string \<Rightarrow> response action" where
  "open_try env data symbol action =
     bnd (open_sizing env data symbol action) (open_submit env symbol)"

text \<open>The \<^verbatim>\<open>except\<close> clauses of that statement, in their order.\<close>

fun open_except :: "pyexc \<Rightarrow> state \<Rightarrow> response \<times> state" where
  "open_except (KeyError k) s =
     (\<lparr>status_code = 400, payload = ErrorBody (MsgInvalidOpenData (KeyError k))\<rparr>, s)"
| "open_except (ValueError v) s =
     (\<lparr>status_code = 400, payload = ErrorBody (MsgInvalidOpenData (ValueError v))\<rparr>, s)"
| "open_except (BinanceAPIException c m) s =
     (\<lparr>status_code = 500, payload = ErrorBody (MsgException (BinanceAPIException c m))\<rparr>,
      log_to ERROR (LogOpenApiError (BinanceAPIException c m)) s)"
| "open_except e s =
     (\<lparr>status_code = 500, payload = ErrorBody (MsgException e)\<rparr>,
      log_to ERROR (LogOpenUnexpected e) s)"

definition open_position ::
  "environment \<Rightarrow> (string \<Rightarrow> json option) \<Rightarrow> string \<Rightarrow> string \<Rightarrow> state \<Rightarrow> response \<times> state" where
  "open_position env data symbol action s =
     (case open_try env data symbol action s of
        (Inr resp, s') \<Rightarrow> (resp, s')
      | (Inl e, s') \<Rightarrow> open_except e s')"

text \<open>The dispatch on the action (lines 132 to 189).\<close>

definition dispatch ::
  "environment \<Rightarrow> (string \<Rightarrow> json option) \<Rightarrow> string \<Rightarrow> string \<Rightarrow> state \<Rightarrow> response \<times> state" where
  "dispatch env data symbol action s =
     (if action = ''CLOSE'' then
        (case close_position_for_symbol env symbol s of
           ((True, message), s') \<Rightarrow>
             (\<lparr>status_code = 200, payload = CloseSuccess symbol message\<rparr>, s')
         | ((False, message), s') \<Rightarrow>
             (\<lparr>status_code = 500, payload = ErrorBody (MsgCloseFailed message)\<rparr>, s'))
      else if action \<in> set [''LONG'', ''BUY'', ''SHORT'', ''SELL''] then
        (case close_position_for_symbol env symbol s of
           ((False, _), s') \<Rightarrow>
             (\<lparr>status_code = 500, payload = ErrorBody MsgCloseBeforeOpenFailed\<rparr>,
              log_to ERROR (LogCloseFailedAbort symbol) s')
         | ((True, _), s') \<Rightarrow> open_position env data symbol action s')
      else
        (\<lparr>status_code = 400, payload = ErrorBody (MsgUnknownAction action)\<rparr>, s))"

text \<open>The handler. \<open>request_json\<close> is the result of
  \<^verbatim>\<open>request.get_json(force=True, silent=True)\<close>: \<open>None\<close> when the body does not parse.
  An exception that no clause catches (a \<^verbatim>\<open>symbol\<close> or \<^verbatim>\<open>side\<close> that is not a string)
  leaves the handler, and Flask answers 500.\<close>

definition webhook :: "environment \<Rightarrow> json option \<Rightarrow> state \<Rightarrow> response \<times> state" where
  "webhook env request_json s =
     (case request_json of
        Some (JObj data) \<Rightarrow>
          (let s1 = log_to INFO LogWebhookReceived s in
           if data ''secret'' \<noteq> Some (JStr (WEBHOOK_SECRET env)) then
             (\<lparr>status_code = 401, payload = ErrorBody MsgUnauthorized\<rparr>,
              log_to WARNING LogUnauthorized s1)
           else
             (case get_upper data ''symbol'' of
                Inl (KeyError k) \<Rightarrow>
                  (\<lparr>status_code = 400, payload = ErrorBody (MsgMissingField (KeyError k))\<rparr>, s1)
              | Inl e \<Rightarrow> (\<lparr>status_code = 500, payload = InternalServerError\<rparr>, s1)
              | Inr symbol \<Rightarrow>
                  (case get_upper data ''side'' of
                     Inl (KeyError k) \<Rightarrow>
                       (\<lparr>status_code = 400,
                         payload = ErrorBody (MsgMissingField (KeyError k))\<rparr>, s1)
                   | Inl e \<Rightarrow> (\<lparr>status_code = 500, payload = InternalServerError\<rparr>, s1)
                   | Inr action \<Rightarrow> dispatch env data symbol action s1)))
      | _ \<Rightarrow> (\<lparr>status_code = 400, payload = ErrorBody MsgMalformedJson\<rparr>, s))"

section \<open>Scenarios\<close>

text \<open>Concrete collaborators on which the theorems below are instantiated: an exchange
  whose account is flat and which accepts every call, with the instrument of the
  specification's example (mark price 50000, step size and minimum quantity 0.001, that
  is, the doubles that \<^verbatim>\<open>float\<close> makes of these decimals).\<close>

definition btcusdt :: symbol_entry where
  "btcusdt =
     \<lparr>s_symbol = ''BTCUSDT'',
      filters =
        [\<lparr>filterType = ''PRICE_FILTER'', params = [(''tickSize'', binary64 (1 / 10))]\<rparr>,
         \<lparr>filterType = ''LOT_SIZE'',
          params = [(''stepSize'', binary64 (1 / 1000)),
                    (''minQty'', binary64 (1 / 1000))]\<rparr>]\<rparr>"

definition flat_exchange :: exchange where
  "flat_exchange =
     \<lparr>futures_position_information =
        (\<lambda>h symbol. Inr [\<lparr>p_symbol = symbol, positionAmt = 0\<rparr>]),
      futures_cancel_all_open_orders = (\<lambda>h symbol. Inr ()),
      futures_create_order = (\<lambda>h ord. Inr (1000 + int (length h))),
      futures_change_leverage = (\<lambda>h symbol leverage. Inr ()),
      futures_mark_price = (\<lambda>h symbol. Inr 50000),
      futures_exchange_info = (\<lambda>h. Inr [btcusdt])\<rparr>"

text \<open>The same exchange with an open long position of 1.5.\<close>

definition long_exchange :: exchange where
  "long_exchange =
     flat_exchange
       \<lparr>futures_position_information :=
          (\<lambda>h symbol. Inr [\<lparr>p_symbol = symbol, positionAmt = 3 / 2\<rparr>])\<rparr>"

text \<open>The same exchange with an open short position of 2.\<close>

definition short_exchange :: exchange where
  "short_exchange =
     flat_exchange
       \<lparr>futures_position_information :=
          (\<lambda>h symbol. Inr [\<lparr>p_symbol = symbol, positionAmt = - 2\<rparr>])\<rparr>"

text \<open>\<^verbatim>\<open>float\<close> on the strings that the scenarios use.\<close>

definition scenario_float :: "string \<Rightarrow> real option" where
  "scenario_float =
     map_of [(''10'', 10), (''100'', 100), (''0.05'', binary64 (1 / 20)), (''1.5'', 3 / 2)]"

definition server :: "exchange \<Rightarrow> environment" where
  "server ex = \<lparr>client = ex, WEBHOOK_SECRET = ''s3cr3t'', float_of_str = scenario_float\<rparr>"

definition started :: state where
  "started = \<lparr>events = [], logs = [], symbol_info_cache = Map.empty\<rparr>"

definition signal :: "(string \<times> json) list \<Rightarrow> json option" where
  "signal items = Some (JObj (map_of items))"

definition long_signal :: "(string \<times> json) list" where
  "long_signal =
     [(''secret'', JStr ''s3cr3t''), (''symbol'', JStr ''btcusdt''), (''side'', JStr ''long'')]"

text \<open>Variations: an exchange that rejects every order, one that accepts market orders and
  rejects trailing stops, one whose cancellation call fails, and one whose instrument list
  is unavailable.\<close>

definition rejecting_orders :: "exchange \<Rightarrow> exchange" where
  "rejecting_orders ex =
     ex\<lparr>futures_create_order := (\<lambda>h ord. Inl (BinanceAPIException (- 1000) ''rejected''))\<rparr>"

definition rejecting_trailing_stops :: "exchange \<Rightarrow> exchange" where
  "rejecting_trailing_stops ex =
     ex\<lparr>futures_create_order :=
          (\<lambda>h ord. if o_type ord = MARKET then Inr (1000 + int (length h))
                    else Inl (BinanceAPIException (- 2021) ''would trigger''))\<rparr>"

definition failing_cancel :: "exchange \<Rightarrow> exchange" where
  "failing_cancel ex =
     ex\<lparr>futures_cancel_all_open_orders :=
          (\<lambda>h symbol. Inl (BinanceAPIException (- 1001) ''disconnected''))\<rparr>"

definition without_instruments :: "exchange \<Rightarrow> exchange" where
  "without_instruments ex =
     ex\<lparr>futures_exchange_info := (\<lambda>h. Inl (BinanceAPIException (- 1001) ''disconnected''))\<rparr>"

section \<open>Evaluation and basic facts\<close>

lemmas act_defs = ret_def raise_def lift_def bnd_def logging_def log_to_def futures_call_def
  to_reply_def call_position_information_def call_cancel_all_open_orders_def
  call_create_order_def call_change_leverage_def call_mark_price_def call_exchange_info_def

lemmas eval_defs = webhook_def dispatch_def open_position_def open_try_def open_sizing_def
  open_submit_def close_position_for_symbol_def close_try_def get_symbol_info_def
  fetch_filters_def store_filters_def cache_put_def adjust_quantity_def filter_param_def
  get_upper_def get_item_def upper_def upper_char_def py_int_def math_log10_def
  py_div_def market_order_def trailing_stop_order_def

lemmas scen_defs = btcusdt_def flat_exchange_def long_exchange_def short_exchange_def
  scenario_float_def
  server_def started_def signal_def long_signal_def rejecting_orders_def
  rejecting_trailing_stops_def failing_cancel_def without_instruments_def

text \<open>The doubles of the scenarios. A number whose mantissa, scaled by a power of two,
  lies between \<open>2\<^sup>5\<^sup>2\<close> and \<open>2\<^sup>5\<^sup>3\<close> is rounded at that scale.\<close>

lemma binary64_scaled:
  assumes "2 ^ 52 \<le> \<bar>x\<bar> * 2 ^ n" and "\<bar>x\<bar> * 2 ^ n < 2 ^ 53"
  shows "binary64 x = of_int (py_round (x * 2 ^ n)) / 2 ^ n"
proof -
  from assms(1) have nz: "x \<noteq> 0"
    by auto
  then have pos: "0 < \<bar>x\<bar>"
    by simp
  have lo: "2 powr (of_int (52 - int n)) \<le> \<bar>x\<bar>"
  proof -
    have "2 powr (of_int (52 - int n)) = (2::real) ^ 52 / 2 ^ n"
      by (simp add: powr_diff powr_realpow)
    also have "\<dots> \<le> \<bar>x\<bar>"
      using assms(1) by (simp add: divide_le_eq)
    finally show ?thesis .
  qed
  have hi: "\<bar>x\<bar> < 2 powr (of_int (52 - int n + 1))"
  proof -
    have "2 powr (of_int (52 - int n + 1)) = (2::real) ^ 53 / 2 ^ n"
      by (simp add: powr_diff powr_realpow powr_add)
    moreover have "\<bar>x\<bar> < (2::real) ^ 53 / 2 ^ n"
      using assms(2) by (simp add: less_divide_eq)
    ultimately show ?thesis by simp
  qed
  from lo hi have e: "\<lfloor>log 2 \<bar>x\<bar>\<rfloor> = 52 - int n"
    using floor_log_eq_powr_iff [OF pos, of 2 "52 - int n"] by simp
  have "(2::real) powi (52 - int n - 52) = 1 / 2 ^ n"
    by (simp add: power_int_minus inverse_eq_divide)
  with nz e show ?thesis
    by (simp add: binary64_def Let_def)
qed

lemma binary64_0: "binary64 0 = 0"
  by (simp add: binary64_def)

lemma binary64_10: "binary64 10 = 10"
  using binary64_scaled [of 10 49] by (simp add: py_round_def)


lemma binary64_1: "binary64 1 = 1"
  using binary64_scaled [of 1 52] by (simp add: py_round_def)

lemma binary64_3_2: "binary64 (3 / 2) = 3 / 2"
  using binary64_scaled [of "3 / 2" 52] by (simp add: py_round_def)

lemma binary64_5_2: "binary64 (5 / 2) = 5 / 2"
  using binary64_scaled [of "5 / 2" 51] by (simp add: py_round_def)

lemma binary64_100: "binary64 100 = 100"
  using binary64_scaled [of 100 46] by (simp add: py_round_def)

lemma binary64_200: "binary64 200 = 200"
  using binary64_scaled [of 200 45] by (simp add: py_round_def)

lemma binary64_1000: "binary64 1000 = 1000"
  using binary64_scaled [of 1000 43] by (simp add: py_round_def)

lemma binary64_tenth: "binary64 (1 / 10) = 3602879701896397 / 36028797018963968"
  using binary64_scaled [of "1 / 10" 56] by (simp add: py_round_def)

lemma binary64_milli: "binary64 (1 / 1000) = 1152921504606847 / 1152921504606846976"
  using binary64_scaled [of "1 / 1000" 62] by (simp add: py_round_def)

lemma binary64_1_50: "binary64 (1 / 50) = 5764607523034235 / 288230376151711744"
  using binary64_scaled [of "1 / 50" 58] by (simp add: py_round_def)

lemma binary64_1_5000: "binary64 (1 / 5000) = 7378697629483821 / 36893488147419103232"
  using binary64_scaled [of "1 / 5000" 65] by (simp add: py_round_def)

lemma binary64_1_250: "binary64 (1 / 250) = 1152921504606847 / 288230376151711744"
  using binary64_scaled [of "1 / 250" 60] by (simp add: py_round_def)

lemma binary64_1_20: "binary64 (1 / 20) = 3602879701896397 / 72057594037927936"
  using binary64_scaled [of "1 / 20" 57] by (simp add: py_round_def)

lemma binary64_9_10: "binary64 (9 / 10) = 8106479329266893 / 9007199254740992"
  using binary64_scaled [of "9 / 10" 53] by (simp add: py_round_def)

lemma scaled_1_50: "binary64 (binary64 (1 / 50) * 1000) = 20"
  using binary64_scaled [of "5764607523034235 / 288230376151711744 * 1000" 48]
  by (simp add: py_round_def binary64_1_50)

lemma scaled_1_5000:
  "binary64 (binary64 (1 / 5000) * 1000) = 3602879701896397 / 18014398509481984"
  using binary64_scaled [of "7378697629483821 / 36893488147419103232 * 1000" 55]
  by (simp add: py_round_def binary64_1_5000)

lemma scaled_1_250: "binary64 (binary64 (1 / 250) * 1000) = 4"
  using binary64_scaled [of "1152921504606847 / 288230376151711744 * 1000" 50]
  by (simp add: py_round_def binary64_1_250)

lemma scaled_tie: "binary64 (2026619832316723 / 2251799813685248 * 10) = 9"
  using binary64_scaled [of "2026619832316723 / 2251799813685248 * 10" 49]
  by (simp add: py_round_def)

lemma py_round_log10:
  assumes "0 < x" and "1 < 10 ^ (2 * n + 1) * x\<^sup>2" and "10 ^ (2 * n) * x\<^sup>2 < 10"
  shows "py_round (- log 10 x) = int n"
proof -
  have sq: "log 10 (x\<^sup>2) = 2 * log 10 x"
    using assms(1) by (simp add: log_nat_power)
  have "log 10 1 < log 10 (10 ^ (2 * n + 1) * x\<^sup>2)"
    using assms(1,2) by (subst log_less_cancel_iff) simp_all
  then have "0 < real (2 * n + 1) + 2 * log 10 x"
    using assms(1) sq by (simp add: log_mult)
  then have up: "- log 10 x < real n + 1 / 2"
    by simp
  have "log 10 (10 ^ (2 * n) * x\<^sup>2) < log 10 10"
    using assms(1,3) by (subst log_less_cancel_iff) simp_all
  then have "real (2 * n) + 2 * log 10 x < 1"
    using assms(1) sq by (simp add: log_mult)
  then have lo: "real n - 1 / 2 < - log 10 x"
    by simp
  show ?thesis
  proof (cases "real n \<le> - log 10 x")
    case True
    with up have "\<lfloor>- log 10 x\<rfloor> = int n"
      by (simp add: floor_eq_iff)
    with up show ?thesis
      by (simp add: py_round_def Let_def)
  next
    case False
    with lo have "\<lfloor>- log 10 x\<rfloor> = int n - 1"
      by (simp add: floor_eq_iff)
    with lo show ?thesis
      by (simp add: py_round_def Let_def)
  qed
qed

lemma precision_milli: "py_round (- log 10 (binary64 (1 / 1000))) = 3"
  using py_round_log10 [of "binary64 (1 / 1000)" 3] by (simp add: binary64_milli power2_eq_square)

lemma precision_tenth: "py_round (- log 10 (binary64 (1 / 10))) = 1"
  using py_round_log10 [of "binary64 (1 / 10)" 1] by (simp add: binary64_tenth power2_eq_square)


lemma float_comparisons:
  "\<not> binary64 (1 / 1000) \<le> 0" "0 < binary64 (1 / 1000)"
  "\<not> binary64 (1 / 50) < binary64 (1 / 1000)" "\<not> binary64 (1 / 50) \<le> 0"
  "0 < binary64 (1 / 50)"
  "\<not> binary64 (1 / 250) < binary64 (1 / 1000)" "\<not> binary64 (1 / 250) \<le> 0"
  "\<not> 1 \<le> binary64 (1 / 20) * 10" "\<not> 1 / 10 \<le> binary64 (1 / 20)"
  by (simp_all add: binary64_milli binary64_1_50 binary64_1_250 binary64_1_20)

lemma py_float_numbers:
  "py_float p (JNum 0) = Inr 0" "py_float p (JNum 1) = Inr 1"
  "py_float p (JNum (3 / 2)) = Inr (3 / 2)" "py_float p (JNum (5 / 2)) = Inr (5 / 2)"
  "py_float p (JNum 10) = Inr 10" "py_float p (JNum 100) = Inr 100"
  by (simp_all add: binary64_0 binary64_1 binary64_3_2 binary64_5_2 binary64_10 binary64_100)

lemmas float_evals = py_float_numbers binary64_0 binary64_1 binary64_3_2 binary64_5_2
  binary64_10 binary64_100 binary64_200 binary64_1000 scaled_1_50 scaled_1_5000 scaled_1_250
  precision_milli float_comparisons

lemma events_log_to: "events (log_to l m s) = events s"
  by (simp add: log_to_def)

lemma cache_log_to: "symbol_info_cache (log_to l m s) = symbol_info_cache s"
  by (simp add: log_to_def)

text \<open>A request that passes authentication and names a directional side reaches the
  close step, whose verdict decides between the abort and the opening phase.\<close>

lemma webhook_directional:
  assumes "request_json = Some (JObj data)"
    and "data ''secret'' = Some (JStr (WEBHOOK_SECRET env))"
    and "data ''symbol'' = Some (JStr raw_symbol)"
    and "data ''side'' = Some (JStr raw_side)"
    and "upper raw_side \<in> set [''LONG'', ''BUY'', ''SHORT'', ''SELL'']"
  shows "webhook env request_json s =
           (case close_position_for_symbol env (upper raw_symbol)
                   (log_to INFO LogWebhookReceived s) of
              ((False, d), s') \<Rightarrow>
                (\<lparr>status_code = 500, payload = ErrorBody MsgCloseBeforeOpenFailed\<rparr>,
                 log_to ERROR (LogCloseFailedAbort (upper raw_symbol)) s')
            | ((True, d), s') \<Rightarrow> open_position env data (upper raw_symbol) (upper raw_side) s')"
proof -
  from assms(5) have "upper raw_side \<noteq> ''CLOSE''"
    by auto
  with assms show ?thesis
    by (simp add: webhook_def dispatch_def get_upper_def Let_def)
qed

lemma close_events:
  "close_position_for_symbol env symbol s = (r, s') \<Longrightarrow>
   \<exists>rp ce. events s' = events s @ (PositionInformation symbol, rp) # ce"
  unfolding close_position_for_symbol_def close_try_def
  by (auto simp: act_defs Let_def
      split: sum.splits option.splits if_splits pyexc.splits prod.splits
      elim!: close_except.elims)

lemma close_cache:
  "close_position_for_symbol env symbol s = (r, s') \<Longrightarrow>
   symbol_info_cache s' = symbol_info_cache s"
  unfolding close_position_for_symbol_def close_try_def
  by (auto simp: act_defs Let_def
      split: sum.splits option.splits if_splits pyexc.splits prod.splits
      elim!: close_except.elims)

lemma close_failed_events:
  "close_position_for_symbol env symbol s = ((False, d), s') \<Longrightarrow>
   (c, r) \<in> set (drop (length (events s)) (events s')) \<Longrightarrow>
   (\<forall>x l. c \<noteq> ChangeLeverage x l) \<and> (\<forall>x. c \<noteq> MarkPrice x) \<and> (\<forall>oid. r \<noteq> OrderAck oid)"
  unfolding close_position_for_symbol_def close_try_def
  by (auto simp: act_defs Let_def
      split: sum.splits option.splits if_splits pyexc.splits prod.splits
      elim!: close_except.elims)

lemma open_try_events:
  "open_try env data symbol action s = (r, s') \<Longrightarrow> \<exists>evs. events s' = events s @ evs"
  unfolding open_try_def open_sizing_def open_submit_def get_symbol_info_def fetch_filters_def
    store_filters_def adjust_quantity_def cache_put_def
  by (auto simp: act_defs Let_def
      split: sum.splits option.splits if_splits pyexc.splits prod.splits)

lemma open_except_events: "events (snd (open_except e s)) = events s"
  by (cases e) (simp_all add: log_to_def)

lemma open_position_events:
  "open_position env data symbol action s = (r, s') \<Longrightarrow> \<exists>evs. events s' = events s @ evs"
  unfolding open_position_def
  using open_except_events
  by (auto split: sum.splits prod.splits dest!: open_try_events) (metis snd_conv)

section \<open>Close before open\<close>

text \<open>
  C1. For a directional request (side LONG, BUY, SHORT or SELL after upper-casing) the
  first exchange call is the position query of the close step, and every call of the
  opening phase comes after the calls of the close step. When the close step reports
  failure, nothing further is sent: the response is the 500 abort, the calls of the request
  are those of the close step, and among them there is no leverage change, no mark-price
  fetch and no acknowledged order. So calls of the opening phase occur only after a close
  step that reported success.
\<close>

theorem close_precedes_open:
  assumes "request_json = Some (JObj data)"
    and "data ''secret'' = Some (JStr (WEBHOOK_SECRET env))"
    and "data ''symbol'' = Some (JStr raw_symbol)"
    and "data ''side'' = Some (JStr raw_side)"
    and "upper raw_side \<in> set [''LONG'', ''BUY'', ''SHORT'', ''SELL'']"
    and "close_position_for_symbol env (upper raw_symbol) (log_to INFO LogWebhookReceived s) =
           ((ok, detail), s1)"
    and "webhook env request_json s = (resp, s')"
  shows "\<exists>rp ce rest.
           events s1 = events s @ (PositionInformation (upper raw_symbol), rp) # ce \<and>
           events s' = events s1 @ rest \<and>
           (\<not> ok \<longrightarrow>
              rest = [] \<and>
              resp = \<lparr>status_code = 500, payload = ErrorBody MsgCloseBeforeOpenFailed\<rparr> \<and>
              (\<forall>c r. (c, r) \<in> set ((PositionInformation (upper raw_symbol), rp) # ce) \<longrightarrow>
                 (\<forall>x l. c \<noteq> ChangeLeverage x l) \<and> (\<forall>x. c \<noteq> MarkPrice x) \<and>
                 (\<forall>oid. r \<noteq> OrderAck oid)))"
proof -
  let ?s0 = "log_to INFO LogWebhookReceived s"
  from close_events [OF assms(6)] obtain rp ce where
    ce: "events s1 = events s @ (PositionInformation (upper raw_symbol), rp) # ce"
    by (auto simp: events_log_to)
  have w: "webhook env request_json s =
      (if ok then open_position env data (upper raw_symbol) (upper raw_side) s1
       else (\<lparr>status_code = 500, payload = ErrorBody MsgCloseBeforeOpenFailed\<rparr>,
             log_to ERROR (LogCloseFailedAbort (upper raw_symbol)) s1))"
    using webhook_directional [OF assms(1-5), of s] assms(6) by (cases ok) simp_all
  show ?thesis
  proof (cases ok)
    case True
    with w assms(7) have "open_position env data (upper raw_symbol) (upper raw_side) s1 = (resp, s')"
      by simp
    from open_position_events [OF this] obtain rest where "events s' = events s1 @ rest" ..
    with ce True show ?thesis by blast
  next
    case False
    with w assms(7)
    have r: "resp = \<lparr>status_code = 500, payload = ErrorBody MsgCloseBeforeOpenFailed\<rparr>"
      and s': "s' = log_to ERROR (LogCloseFailedAbort (upper raw_symbol)) s1"
      by simp_all
    have "\<forall>c r. (c, r) \<in> set ((PositionInformation (upper raw_symbol), rp) # ce) \<longrightarrow>
                 (\<forall>x l. c \<noteq> ChangeLeverage x l) \<and> (\<forall>x. c \<noteq> MarkPrice x) \<and>
                 (\<forall>oid. r \<noteq> OrderAck oid)"
    proof (intro allI impI)
      fix c r
      assume "(c, r) \<in> set ((PositionInformation (upper raw_symbol), rp) # ce)"
      then have "(c, r) \<in> set (drop (length (events ?s0)) (events s1))"
        using ce by (simp add: events_log_to)
      with close_failed_events [of env "upper raw_symbol" ?s0 detail s1 c r] assms(6) False
      show "(\<forall>x l. c \<noteq> ChangeLeverage x l) \<and> (\<forall>x. c \<noteq> MarkPrice x) \<and>
            (\<forall>oid. r \<noteq> OrderAck oid)"
        by simp
    qed
    with ce r s' show ?thesis
      by (simp add: events_log_to)
  qed
qed

text \<open>An open long position whose closing order the exchange rejects: the request ends
  with the abort and the three calls of the close step.\<close>

theorem close_precedes_open_witness:
  "fst (webhook (server (rejecting_orders long_exchange))
          (signal (long_signal @ [(''lev'', JNum 10), (''usdt'', JNum 100)])) started) =
     \<lparr>status_code = 500, payload = ErrorBody MsgCloseBeforeOpenFailed\<rparr> \<and>
   map fst (events (snd (webhook (server (rejecting_orders long_exchange))
          (signal (long_signal @ [(''lev'', JNum 10), (''usdt'', JNum 100)])) started))) =
     [PositionInformation ''BTCUSDT'', CancelAllOpenOrders ''BTCUSDT'',
      CreateOrder (market_order ''BTCUSDT'' SELL (3 / 2))]"
proof -
  let ?env = "server (rejecting_orders long_exchange)"
  let ?items = "long_signal @ [(''lev'', JNum 10), (''usdt'', JNum 100)]"
  have h1: "signal ?items = Some (JObj (map_of ?items))"
    by (simp add: signal_def)
  have h2: "map_of ?items ''secret'' = Some (JStr (WEBHOOK_SECRET ?env))"
    by (simp add: scen_defs)
  have h3: "map_of ?items ''symbol'' = Some (JStr ''btcusdt'')"
    by (simp add: scen_defs)
  have h4: "map_of ?items ''side'' = Some (JStr ''long'')"
    by (simp add: scen_defs)
  have h5: "upper ''long'' \<in> set [''LONG'', ''BUY'', ''SHORT'', ''SELL'']"
    by (simp add: upper_def upper_char_def)
  have u: "upper ''btcusdt'' = ''BTCUSDT''"
    by (simp add: upper_def upper_char_def)
  obtain d s1 where h6: "close_position_for_symbol ?env (upper ''btcusdt'')
      (log_to INFO LogWebhookReceived started) = ((False, d), s1)"
    and e1: "map fst (events s1) = [PositionInformation ''BTCUSDT'',
      CancelAllOpenOrders ''BTCUSDT'', CreateOrder (market_order ''BTCUSDT'' SELL (3 / 2))]"
    by (simp add: eval_defs act_defs scen_defs Let_def float_evals)
  have h7: "webhook ?env (signal ?items) started =
      (fst (webhook ?env (signal ?items) started), snd (webhook ?env (signal ?items) started))"
    by simp
  from close_precedes_open [OF h1 h2 h3 h4 h5 h6 h7] obtain rest where
    "events (snd (webhook ?env (signal ?items) started)) = events s1 @ rest"
    and "rest = [] \<and> fst (webhook ?env (signal ?items) started) =
      \<lparr>status_code = 500, payload = ErrorBody MsgCloseBeforeOpenFailed\<rparr>"
    by blast
  with e1 show ?thesis
    by simp
qed

section \<open>The close step\<close>

text \<open>
  C8, amended. When the position query returns no entry of the symbol with a non-zero
  amount (in particular an entry with \<open>positionAmt = 0\<close>), the close step reports success
  with "no position to close" and its only call is the position query: no cancellation and
  no order. When the first such entry has the signed amount \<open>a\<close> and the cancellation call
  returns, the close step submits one market order on the opposing side (SELL for
  \<open>a > 0\<close>, BUY otherwise) for the quantity \<open>\<bar>a\<bar>\<close>.
\<close>

theorem close_submits_opposing_order:
  assumes "futures_position_information (client env) (events s) symbol = Inr positions"
    and "close_position_for_symbol env symbol s = (result, s')"
  shows "(find (\<lambda>p. p_symbol p = symbol \<and> positionAmt p \<noteq> 0) positions = None \<longrightarrow>
            result = (True, NoPositionToClose) \<and>
            events s' = events s @ [(PositionInformation symbol, Positions positions)]) \<and>
         (\<forall>position.
            find (\<lambda>p. p_symbol p = symbol \<and> positionAmt p \<noteq> 0) positions = Some position \<and>
            futures_cancel_all_open_orders (client env)
              (events s @ [(PositionInformation symbol, Positions positions)]) symbol = Inr () \<longrightarrow>
            (\<exists>r. events s' =
               events s @
               [(PositionInformation symbol, Positions positions),
                (CancelAllOpenOrders symbol, Cancelled),
                (CreateOrder
                   \<lparr>o_symbol = symbol,
                    o_side = (if positionAmt position > 0 then SELL else BUY),
                    o_type = MARKET, o_quantity = \<bar>positionAmt position\<bar>,
                    o_callbackRate = None, o_workingType = None\<rparr>, r)]))"
  using assms
  unfolding close_position_for_symbol_def close_try_def market_order_def
  by (auto simp: act_defs Let_def split: if_splits sum.splits elim!: close_except.elims)

text \<open>The amounts of the specification: 0, 1.5 and -2.\<close>

theorem close_submits_opposing_order_witness:
  "fst (close_position_for_symbol (server flat_exchange) ''BTCUSDT'' started) =
     (True, NoPositionToClose) \<and>
   map fst (events (snd (close_position_for_symbol (server flat_exchange) ''BTCUSDT'' started))) =
     [PositionInformation ''BTCUSDT''] \<and>
   map fst (events (snd (close_position_for_symbol (server long_exchange) ''BTCUSDT'' started))) =
     [PositionInformation ''BTCUSDT'', CancelAllOpenOrders ''BTCUSDT'',
      CreateOrder
        \<lparr>o_symbol = ''BTCUSDT'', o_side = SELL, o_type = MARKET, o_quantity = 3 / 2,
         o_callbackRate = None, o_workingType = None\<rparr>] \<and>
   map fst (events (snd (close_position_for_symbol (server short_exchange) ''BTCUSDT'' started))) =
     [PositionInformation ''BTCUSDT'', CancelAllOpenOrders ''BTCUSDT'',
      CreateOrder
        \<lparr>o_symbol = ''BTCUSDT'', o_side = BUY, o_type = MARKET, o_quantity = 2,
         o_callbackRate = None, o_workingType = None\<rparr>]"
proof -
  let ?flat = "close_position_for_symbol (server flat_exchange) ''BTCUSDT'' started"
  let ?long = "close_position_for_symbol (server long_exchange) ''BTCUSDT'' started"
  let ?short = "close_position_for_symbol (server short_exchange) ''BTCUSDT'' started"
  have f1: "futures_position_information (client (server flat_exchange)) (events started)
      ''BTCUSDT'' = Inr [\<lparr>p_symbol = ''BTCUSDT'', positionAmt = 0\<rparr>]"
    by (simp add: scen_defs)
  have f2: "?flat = (fst ?flat, snd ?flat)"
    by simp
  have l1: "futures_position_information (client (server long_exchange)) (events started)
      ''BTCUSDT'' = Inr [\<lparr>p_symbol = ''BTCUSDT'', positionAmt = 3 / 2\<rparr>]"
    by (simp add: scen_defs)
  have l2: "?long = (fst ?long, snd ?long)"
    by simp
  have l3: "futures_cancel_all_open_orders (client (server long_exchange))
      (events started @ [(PositionInformation ''BTCUSDT'',
         Positions [\<lparr>p_symbol = ''BTCUSDT'', positionAmt = 3 / 2\<rparr>])]) ''BTCUSDT'' = Inr ()"
    by (simp add: scen_defs)
  have s1: "futures_position_information (client (server short_exchange)) (events started)
      ''BTCUSDT'' = Inr [\<lparr>p_symbol = ''BTCUSDT'', positionAmt = - 2\<rparr>]"
    by (simp add: scen_defs)
  have s2: "?short = (fst ?short, snd ?short)"
    by simp
  have s3: "futures_cancel_all_open_orders (client (server short_exchange))
      (events started @ [(PositionInformation ''BTCUSDT'',
         Positions [\<lparr>p_symbol = ''BTCUSDT'', positionAmt = - 2\<rparr>])]) ''BTCUSDT'' = Inr ()"
    by (simp add: scen_defs)
  have e: "events started = []"
    by (simp add: started_def)
  from close_submits_opposing_order [OF f1 f2]
  have a: "fst ?flat = (True, NoPositionToClose) \<and>
      map fst (events (snd ?flat)) = [PositionInformation ''BTCUSDT'']"
    by (simp add: e)
  from close_submits_opposing_order [OF l1 l2] l3
  have b: "map fst (events (snd ?long)) =
      [PositionInformation ''BTCUSDT'', CancelAllOpenOrders ''BTCUSDT'',
       CreateOrder
         \<lparr>o_symbol = ''BTCUSDT'', o_side = SELL, o_type = MARKET, o_quantity = 3 / 2,
          o_callbackRate = None, o_workingType = None\<rparr>]"
    by (auto simp: e)
  from close_submits_opposing_order [OF s1 s2] s3
  have c: "map fst (events (snd ?short)) =
      [PositionInformation ''BTCUSDT'', CancelAllOpenOrders ''BTCUSDT'',
       CreateOrder
         \<lparr>o_symbol = ''BTCUSDT'', o_side = BUY, o_type = MARKET, o_quantity = 2,
          o_callbackRate = None, o_workingType = None\<rparr>]"
    by (auto simp: e)
  from a b c show ?thesis
    by simp
qed

text \<open>The claim as written fails: with an open short position of 2 and a cancellation
  call that raises, the close step submits no order at all.\<close>

theorem close_without_order_counterexample:
  "map fst (events (snd (close_position_for_symbol (server (failing_cancel short_exchange))
                           ''BTCUSDT'' started))) =
     [PositionInformation ''BTCUSDT'', CancelAllOpenOrders ''BTCUSDT'']"
  by (simp add: eval_defs act_defs scen_defs Let_def float_evals)

text \<open>
  C5, amended. With a non-zero position, a failure of the cancellation call ends the close
  step: the calls are the position query and the failed cancellation, and no order is
  submitted. The failure is logged. The step reports failure with the error, except for
  the API error code -2022, for which it reports success ("position likely already
  closed"), still without an order.
\<close>

theorem cancel_failure_ends_close:
  assumes "futures_position_information (client env) (events s) symbol = Inr positions"
    and "find (\<lambda>p. p_symbol p = symbol \<and> positionAmt p \<noteq> 0) positions = Some position"
    and "futures_cancel_all_open_orders (client env)
           (events s @ [(PositionInformation symbol, Positions positions)]) symbol = Inl e"
    and "close_position_for_symbol env symbol s = ((ok, detail), s')"
  shows "events s' = events s @ [(PositionInformation symbol, Positions positions),
                                 (CancelAllOpenOrders symbol, Raised e)] \<and>
         (ok \<longleftrightarrow> (\<exists>m. e = BinanceAPIException (- 2022) m)) \<and>
         (ok \<longrightarrow> detail = LikelyAlreadyClosed \<and>
                 logs s' = logs s @ [(WARNING, LogLikelyClosed symbol e)]) \<and>
         (\<not> ok \<longrightarrow> detail = CloseError e \<and> (\<exists>msg. logs s' = logs s @ [(ERROR, msg)]))"
  using assms
  unfolding close_position_for_symbol_def close_try_def
  by (cases e) (auto simp: act_defs Let_def split: if_splits)

theorem cancel_failure_ends_close_witness:
  "\<not> fst (fst (close_position_for_symbol (server (failing_cancel long_exchange))
                 ''BTCUSDT'' started)) \<and>
   (\<exists>msg. logs (snd (close_position_for_symbol (server (failing_cancel long_exchange))
                 ''BTCUSDT'' started)) = [(ERROR, msg)])"
proof -
  let ?env = "server (failing_cancel long_exchange)"
  let ?run = "close_position_for_symbol ?env ''BTCUSDT'' started"
  let ?positions = "[\<lparr>p_symbol = ''BTCUSDT'', positionAmt = 3 / 2\<rparr>]"
  have h1: "futures_position_information (client ?env) (events started) ''BTCUSDT'' =
      Inr ?positions"
    by (simp add: scen_defs)
  have h2: "find (\<lambda>p. p_symbol p = ''BTCUSDT'' \<and> positionAmt p \<noteq> 0) ?positions =
      Some \<lparr>p_symbol = ''BTCUSDT'', positionAmt = 3 / 2\<rparr>"
    by simp
  have h3: "futures_cancel_all_open_orders (client ?env)
      (events started @ [(PositionInformation ''BTCUSDT'', Positions ?positions)]) ''BTCUSDT'' =
      Inl (BinanceAPIException (- 1001) ''disconnected'')"
    by (simp add: scen_defs)
  have h4: "?run = ((fst (fst ?run), snd (fst ?run)), snd ?run)"
    by simp
  have l: "logs started = []"
    by (simp add: started_def)
  from cancel_failure_ends_close [OF h1 h2 h3 h4] show ?thesis
    by (simp add: l)
qed

text \<open>The claim as written fails: with an open long position of 1.5 and a cancellation
  call that raises, the close step reports failure and has submitted no order.\<close>

theorem cancel_failure_counterexample:
  "fst (close_position_for_symbol (server (failing_cancel long_exchange)) ''BTCUSDT'' started) =
     (False, CloseError (BinanceAPIException (- 1001) ''disconnected'')) \<and>
   map fst (events (snd (close_position_for_symbol (server (failing_cancel long_exchange))
                           ''BTCUSDT'' started))) =
     [PositionInformation ''BTCUSDT'', CancelAllOpenOrders ''BTCUSDT'']"
  by (simp add: eval_defs act_defs scen_defs Let_def float_evals)


lemma webhook_opening:
  assumes "request_json = Some (JObj data)"
    and "data ''secret'' = Some (JStr (WEBHOOK_SECRET env))"
    and "data ''symbol'' = Some (JStr raw_symbol)"
    and "data ''side'' = Some (JStr raw_side)"
    and "upper raw_side \<in> set [''LONG'', ''BUY'', ''SHORT'', ''SELL'']"
    and "close_position_for_symbol env (upper raw_symbol) (log_to INFO LogWebhookReceived s) =
           ((True, detail), s1)"
  shows "webhook env request_json s =
           (case open_try env data (upper raw_symbol) (upper raw_side) s1 of
              (Inr resp, s') \<Rightarrow> (resp, s')
            | (Inl e, s') \<Rightarrow> open_except e s')"
  using webhook_directional [OF assms(1-5), of s] assms(6)
  by (simp add: open_position_def)

lemma sizing_side_tsl:
  "open_sizing env data symbol action s = (Inr (side, tsl_percent, qu, q), s') \<Longrightarrow>
   side = (if action \<in> set [''LONG'', ''BUY''] then BUY else SELL) \<and>
   py_float (float_of_str env) (case data ''tsl'' of None \<Rightarrow> JNum 0 | Some v \<Rightarrow> v) =
     Inr tsl_percent"
  unfolding open_sizing_def
  by (auto simp: ret_def raise_def lift_def bnd_def Let_def
      split: sum.splits option.splits if_splits prod.splits)

lemma submit_out_of_range:
  assumes "0 < quantity"
    and "futures_create_order (client env) (events s) (market_order symbol side quantity) =
           Inr order_id"
    and "\<not> (1 / 10 \<le> tsl_percent \<and> tsl_percent \<le> 5)"
  shows "\<exists>s'. open_submit env symbol (side, tsl_percent, qu, quantity) s =
           (Inr \<lparr>status_code = 200, payload = OpenSuccess order_id\<rparr>, s') \<and>
         events s' = events s @ [(CreateOrder (market_order symbol side quantity), OrderAck order_id)]"
  using assms by (auto simp: open_submit_def act_defs Let_def)

lemma submit_in_range:
  assumes "0 < quantity"
    and "futures_create_order (client env) (events s) (market_order symbol side quantity) =
           Inr order_id"
    and "1 / 10 \<le> tsl_percent \<and> tsl_percent \<le> 5"
    and "futures_create_order (client env)
           (events s @ [(CreateOrder (market_order symbol side quantity), OrderAck order_id)])
           (trailing_stop_order symbol side quantity tsl_percent) = reply"
  shows "\<exists>s'. open_submit env symbol (side, tsl_percent, qu, quantity) s =
           ((case reply of Inl e \<Rightarrow> Inl e
             | Inr tid \<Rightarrow> Inr \<lparr>status_code = 200, payload = OpenSuccess order_id\<rparr>), s') \<and>
         events s' = events s @
           [(CreateOrder (market_order symbol side quantity), OrderAck order_id),
            (CreateOrder (trailing_stop_order symbol side quantity tsl_percent),
             to_reply OrderAck reply)] \<and>
         logs s' = logs s @
           [(INFO, LogOpening side quantity symbol), (INFO, LogOrderSent order_id)] @
           (case reply of Inl e \<Rightarrow> [] | Inr tid \<Rightarrow> [(INFO, LogTrailingStop tsl_percent tid)])"
  using assms by (cases reply) (auto simp: open_submit_def act_defs Let_def)


lemma webhook_submit:
  assumes "request_json = Some (JObj data)"
    and "data ''secret'' = Some (JStr (WEBHOOK_SECRET env))"
    and "data ''symbol'' = Some (JStr raw_symbol)"
    and "data ''side'' = Some (JStr raw_side)"
    and "upper raw_side \<in> set [''LONG'', ''BUY'', ''SHORT'', ''SELL'']"
    and "close_position_for_symbol env (upper raw_symbol) (log_to INFO LogWebhookReceived s) =
           ((True, detail), s1)"
    and "open_sizing env data (upper raw_symbol) (upper raw_side) s1 = (Inr sized, s2)"
  shows "webhook env request_json s =
           (case open_submit env (upper raw_symbol) sized s2 of
              (Inr resp, s') \<Rightarrow> (resp, s')
            | (Inl e, s') \<Rightarrow> open_except e s')"
  using webhook_opening [OF assms(1-6)] assms(7)
  by (simp add: open_try_def bnd_def)

section \<open>The trailing stop\<close>

text \<open>
  C9. Take a directional request whose close step succeeded, whose sizing yielded a
  positive quantity and whose entry market order the exchange acknowledged. The
  trailing-stop percent is \<^verbatim>\<open>float(data.get('tsl', 0))\<close>. If it lies in the inclusive
  range from 0.1 to 5, exactly one further call follows the entry: a
  \<^verbatim>\<open>TRAILING_STOP_MARKET\<close> order on the opposing side, for the same quantity, with
  that percent as callback rate, working on the mark price. Otherwise no call follows the
  entry, and the response is the 200 success carrying the entry's order id.
\<close>

theorem trailing_stop_iff_in_range:
  assumes "request_json = Some (JObj data)"
    and "data ''secret'' = Some (JStr (WEBHOOK_SECRET env))"
    and "data ''symbol'' = Some (JStr raw_symbol)"
    and "data ''side'' = Some (JStr raw_side)"
    and "upper raw_side \<in> set [''LONG'', ''BUY'', ''SHORT'', ''SELL'']"
    and "close_position_for_symbol env (upper raw_symbol) (log_to INFO LogWebhookReceived s) =
           ((True, detail), s1)"
    and "open_sizing env data (upper raw_symbol) (upper raw_side) s1 =
           (Inr (side, tsl_percent, quantity_unformatted, quantity), s2)"
    and "0 < quantity"
    and "futures_create_order (client env) (events s2)
           (market_order (upper raw_symbol) side quantity) = Inr order_id"
    and "webhook env request_json s = (resp, s')"
  shows "py_float (float_of_str env) (case data ''tsl'' of None \<Rightarrow> JNum 0 | Some v \<Rightarrow> v) =
           Inr tsl_percent \<and>
         (1 / 10 \<le> tsl_percent \<and> tsl_percent \<le> 5 \<longrightarrow>
            (\<exists>r. events s' =
               events s2 @
               [(CreateOrder (market_order (upper raw_symbol) side quantity), OrderAck order_id),
                (CreateOrder
                   \<lparr>o_symbol = upper raw_symbol,
                    o_side = (if side = BUY then SELL else BUY),
                    o_type = TRAILING_STOP_MARKET, o_quantity = quantity,
                    o_callbackRate = Some tsl_percent,
                    o_workingType = Some ''MARK_PRICE''\<rparr>, r)])) \<and>
         (\<not> (1 / 10 \<le> tsl_percent \<and> tsl_percent \<le> 5) \<longrightarrow>
            events s' =
              events s2 @
              [(CreateOrder (market_order (upper raw_symbol) side quantity), OrderAck order_id)] \<and>
            resp = \<lparr>status_code = 200, payload = OpenSuccess order_id\<rparr>)"
proof -
  let ?sized = "(side, tsl_percent, quantity_unformatted, quantity)"
  let ?entry = "(CreateOrder (market_order (upper raw_symbol) side quantity), OrderAck order_id)"
  let ?tso = "trailing_stop_order (upper raw_symbol) side quantity tsl_percent"
  from webhook_submit [OF assms(1-7)] assms(10)
  have w: "(case open_submit env (upper raw_symbol) ?sized s2 of
              (Inr resp, s') \<Rightarrow> (resp, s')
            | (Inl e, s') \<Rightarrow> open_except e s') = (resp, s')"
    by simp
  from sizing_side_tsl [OF assms(7)]
  have t: "py_float (float_of_str env) (case data ''tsl'' of None \<Rightarrow> JNum 0 | Some v \<Rightarrow> v) =
      Inr tsl_percent"
    by simp
  show ?thesis
  proof (cases "1 / 10 \<le> tsl_percent \<and> tsl_percent \<le> 5")
    case True
    define reply where "reply = futures_create_order (client env) (events s2 @ [?entry]) ?tso"
    from submit_in_range [OF assms(8,9) True reply_def [symmetric], of quantity_unformatted]
    obtain s3 where
      sub: "open_submit env (upper raw_symbol) ?sized s2 =
         ((case reply of Inl e \<Rightarrow> Inl e
           | Inr tid \<Rightarrow> Inr \<lparr>status_code = 200, payload = OpenSuccess order_id\<rparr>), s3)"
      and ev: "events s3 = events s2 @ [?entry, (CreateOrder ?tso, to_reply OrderAck reply)]"
      by blast
    have "events s' = events s3"
    proof (cases reply)
      case (Inl e)
      with w sub have "open_except e s3 = (resp, s')" by simp
      then have "s' = snd (open_except e s3)" by simp
      then show ?thesis by (simp add: open_except_events)
    next
      case (Inr tid)
      with w sub show ?thesis by simp
    qed
    with ev have "events s' = events s2 @
        [?entry,
         (CreateOrder
            \<lparr>o_symbol = upper raw_symbol, o_side = (if side = BUY then SELL else BUY),
             o_type = TRAILING_STOP_MARKET, o_quantity = quantity,
             o_callbackRate = Some tsl_percent, o_workingType = Some ''MARK_PRICE''\<rparr>,
          to_reply OrderAck reply)]"
      by (simp add: trailing_stop_order_def Let_def)
    with True t show ?thesis by blast
  next
    case False
    from submit_out_of_range [OF assms(8,9) False, of quantity_unformatted]
    obtain s3 where "open_submit env (upper raw_symbol) ?sized s2 =
        (Inr \<lparr>status_code = 200, payload = OpenSuccess order_id\<rparr>, s3)"
      and "events s3 = events s2 @ [?entry]"
      by blast
    with w have "events s' = events s2 @ [?entry] \<and>
        resp = \<lparr>status_code = 200, payload = OpenSuccess order_id\<rparr>"
      by auto
    with False t show ?thesis by blast
  qed
qed

text \<open>
  C2, amended. Under the same conditions, with a percent in range: when the exchange
  rejects the trailing-stop order with an API error, the response is a 500 error carrying
  that error, the failure is logged at error level, and the entry order stays as it is,
  the failed trailing-stop call being the last call of the request.
\<close>

theorem trailing_stop_failure_is_fatal:
  assumes "request_json = Some (JObj data)"
    and "data ''secret'' = Some (JStr (WEBHOOK_SECRET env))"
    and "data ''symbol'' = Some (JStr raw_symbol)"
    and "data ''side'' = Some (JStr raw_side)"
    and "upper raw_side \<in> set [''LONG'', ''BUY'', ''SHORT'', ''SELL'']"
    and "close_position_for_symbol env (upper raw_symbol) (log_to INFO LogWebhookReceived s) =
           ((True, detail), s1)"
    and "open_sizing env data (upper raw_symbol) (upper raw_side) s1 =
           (Inr (side, tsl_percent, quantity_unformatted, quantity), s2)"
    and "0 < quantity"
    and "futures_create_order (client env) (events s2)
           (market_order (upper raw_symbol) side quantity) = Inr order_id"
    and "1 / 10 \<le> tsl_percent \<and> tsl_percent \<le> 5"
    and "futures_create_order (client env)
           (events s2 @
            [(CreateOrder (market_order (upper raw_symbol) side quantity), OrderAck order_id)])
           (trailing_stop_order (upper raw_symbol) side quantity tsl_percent) =
         Inl (BinanceAPIException code text)"
    and "webhook env request_json s = (resp, s')"
  shows "resp = \<lparr>status_code = 500,
                 payload = ErrorBody (MsgException (BinanceAPIException code text))\<rparr> \<and>
         events s' =
           events s2 @
           [(CreateOrder (market_order (upper raw_symbol) side quantity), OrderAck order_id),
            (CreateOrder (trailing_stop_order (upper raw_symbol) side quantity tsl_percent),
             Raised (BinanceAPIException code text))] \<and>
         logs s' =
           logs s2 @
           [(INFO, LogOpening side quantity (upper raw_symbol)), (INFO, LogOrderSent order_id),
            (ERROR, LogOpenApiError (BinanceAPIException code text))]"
proof -
  let ?sized = "(side, tsl_percent, quantity_unformatted, quantity)"
  from webhook_submit [OF assms(1-7)] assms(12)
  have w: "(case open_submit env (upper raw_symbol) ?sized s2 of
              (Inr resp, s') \<Rightarrow> (resp, s')
            | (Inl e, s') \<Rightarrow> open_except e s') = (resp, s')"
    by simp
  from submit_in_range [OF assms(8,9,10,11), of quantity_unformatted]
  obtain s3 where
    sub: "open_submit env (upper raw_symbol) ?sized s2 = (Inl (BinanceAPIException code text), s3)"
    and ev: "events s3 = events s2 @
      [(CreateOrder (market_order (upper raw_symbol) side quantity), OrderAck order_id),
       (CreateOrder (trailing_stop_order (upper raw_symbol) side quantity tsl_percent),
        Raised (BinanceAPIException code text))]"
    and lg: "logs s3 = logs s2 @
      [(INFO, LogOpening side quantity (upper raw_symbol)), (INFO, LogOrderSent order_id)]"
    by (auto simp: to_reply_def)
  from w sub have "resp = \<lparr>status_code = 500,
      payload = ErrorBody (MsgException (BinanceAPIException code text))\<rparr>"
    and "s' = log_to ERROR (LogOpenApiError (BinanceAPIException code text)) s3"
    by simp_all
  with ev lg show ?thesis
    by (simp add: log_to_def)
qed


text \<open>The example of the specification (100 USDT at leverage 10 and mark price 50000, so a
  quantity of 0.02): a percent of 0.05 places no trailing stop, a percent of 1.5 places
  one.\<close>

lemma upper_btcusdt: "upper ''btcusdt'' = ''BTCUSDT''"
  by (simp add: upper_def upper_char_def)

lemma upper_long: "upper ''long'' = ''LONG''"
  by (simp add: upper_def upper_char_def)

theorem trailing_stop_iff_in_range_witness:
  "fst (webhook (server flat_exchange)
          (signal (long_signal @
             [(''lev'', JNum 10), (''usdt'', JNum 100), (''tsl'', JStr ''0.05'')])) started) =
     \<lparr>status_code = 200, payload = OpenSuccess 1004\<rparr> \<and>
   map fst (events (snd (webhook (server flat_exchange)
          (signal (long_signal @
             [(''lev'', JNum 10), (''usdt'', JNum 100), (''tsl'', JStr ''0.05'')])) started))) =
     [PositionInformation ''BTCUSDT'', ExchangeInfo, ChangeLeverage ''BTCUSDT'' 10,
      MarkPrice ''BTCUSDT'', CreateOrder (market_order ''BTCUSDT'' BUY (binary64 (1 / 50)))] \<and>
   map fst (events (snd (webhook (server flat_exchange)
          (signal (long_signal @
             [(''lev'', JNum 10), (''usdt'', JNum 100), (''tsl'', JStr ''1.5'')])) started))) =
     [PositionInformation ''BTCUSDT'', ExchangeInfo, ChangeLeverage ''BTCUSDT'' 10,
      MarkPrice ''BTCUSDT'', CreateOrder (market_order ''BTCUSDT'' BUY (binary64 (1 / 50))),
      CreateOrder
        \<lparr>o_symbol = ''BTCUSDT'', o_side = SELL, o_type = TRAILING_STOP_MARKET,
         o_quantity = binary64 (1 / 50), o_callbackRate = Some (3 / 2),
         o_workingType = Some ''MARK_PRICE''\<rparr>]"
proof -
  let ?env = "server flat_exchange"
  let ?low = "long_signal @ [(''lev'', JNum 10), (''usdt'', JNum 100), (''tsl'', JStr ''0.05'')]"
  let ?mid = "long_signal @ [(''lev'', JNum 10), (''usdt'', JNum 100), (''tsl'', JStr ''1.5'')]"
  let ?s1 = "snd (close_position_for_symbol ?env (upper ''btcusdt'')
                    (log_to INFO LogWebhookReceived started))"
  let ?lo2 = "snd (open_sizing ?env (map_of ?low) (upper ''btcusdt'') (upper ''long'') ?s1)"
  let ?mi2 = "snd (open_sizing ?env (map_of ?mid) (upper ''btcusdt'') (upper ''long'') ?s1)"
  have h5: "upper ''long'' \<in> set [''LONG'', ''BUY'', ''SHORT'', ''SELL'']"
    by (simp add: upper_long)
  have h6: "close_position_for_symbol ?env (upper ''btcusdt'')
      (log_to INFO LogWebhookReceived started) = ((True, NoPositionToClose), ?s1)"
    by (simp add: eval_defs act_defs scen_defs Let_def float_evals)
  have h8: "0 < binary64 (1 / 50)"
    by (simp add: float_comparisons)
  have a1: "signal ?low = Some (JObj (map_of ?low))"
    by (simp add: signal_def)
  have a2: "map_of ?low ''secret'' = Some (JStr (WEBHOOK_SECRET ?env))"
    by (simp add: scen_defs)
  have a3: "map_of ?low ''symbol'' = Some (JStr ''btcusdt'')"
    by (simp add: scen_defs)
  have a4: "map_of ?low ''side'' = Some (JStr ''long'')"
    by (simp add: scen_defs)
  have a7: "open_sizing ?env (map_of ?low) (upper ''btcusdt'') (upper ''long'') ?s1 =
      (Inr (BUY, binary64 (1 / 20), binary64 (1 / 50), binary64 (1 / 50)), ?lo2)"
    by (simp add: eval_defs act_defs scen_defs Let_def float_evals)
  have ae: "map fst (events ?lo2) = [PositionInformation ''BTCUSDT'', ExchangeInfo,
      ChangeLeverage ''BTCUSDT'' 10, MarkPrice ''BTCUSDT'']"
    by (simp add: eval_defs act_defs scen_defs Let_def float_evals)
  have a9: "futures_create_order (client ?env) (events ?lo2)
      (market_order (upper ''btcusdt'') BUY (binary64 (1 / 50))) = Inr 1004"
    by (simp add: eval_defs act_defs scen_defs Let_def float_evals)
  have a10: "webhook ?env (signal ?low) started =
      (fst (webhook ?env (signal ?low) started), snd (webhook ?env (signal ?low) started))"
    by simp
  have b1: "signal ?mid = Some (JObj (map_of ?mid))"
    by (simp add: signal_def)
  have b2: "map_of ?mid ''secret'' = Some (JStr (WEBHOOK_SECRET ?env))"
    by (simp add: scen_defs)
  have b3: "map_of ?mid ''symbol'' = Some (JStr ''btcusdt'')"
    by (simp add: scen_defs)
  have b4: "map_of ?mid ''side'' = Some (JStr ''long'')"
    by (simp add: scen_defs)
  have b7: "open_sizing ?env (map_of ?mid) (upper ''btcusdt'') (upper ''long'') ?s1 =
      (Inr (BUY, 3 / 2, binary64 (1 / 50), binary64 (1 / 50)), ?mi2)"
    by (simp add: eval_defs act_defs scen_defs Let_def float_evals)
  have be: "map fst (events ?mi2) = [PositionInformation ''BTCUSDT'', ExchangeInfo,
      ChangeLeverage ''BTCUSDT'' 10, MarkPrice ''BTCUSDT'']"
    by (simp add: eval_defs act_defs scen_defs Let_def float_evals)
  have b9: "futures_create_order (client ?env) (events ?mi2)
      (market_order (upper ''btcusdt'') BUY (binary64 (1 / 50))) = Inr 1004"
    by (simp add: eval_defs act_defs scen_defs Let_def float_evals)
  have b10: "webhook ?env (signal ?mid) started =
      (fst (webhook ?env (signal ?mid) started), snd (webhook ?env (signal ?mid) started))"
    by simp
  from trailing_stop_iff_in_range [OF a1 a2 a3 a4 h5 h6 a7 h8 a9 a10] ae
  have lo: "fst (webhook ?env (signal ?low) started) =
        \<lparr>status_code = 200, payload = OpenSuccess 1004\<rparr> \<and>
      map fst (events (snd (webhook ?env (signal ?low) started))) =
        [PositionInformation ''BTCUSDT'', ExchangeInfo, ChangeLeverage ''BTCUSDT'' 10,
         MarkPrice ''BTCUSDT'', CreateOrder (market_order ''BTCUSDT'' BUY (binary64 (1 / 50)))]"
    by (simp add: upper_btcusdt float_comparisons)
  from trailing_stop_iff_in_range [OF b1 b2 b3 b4 h5 h6 b7 h8 b9 b10] be
  have mi: "map fst (events (snd (webhook ?env (signal ?mid) started))) =
      [PositionInformation ''BTCUSDT'', ExchangeInfo, ChangeLeverage ''BTCUSDT'' 10,
       MarkPrice ''BTCUSDT'', CreateOrder (market_order ''BTCUSDT'' BUY (binary64 (1 / 50))),
       CreateOrder
         \<lparr>o_symbol = ''BTCUSDT'', o_side = SELL, o_type = TRAILING_STOP_MARKET,
          o_quantity = binary64 (1 / 50), o_callbackRate = Some (3 / 2),
          o_workingType = Some ''MARK_PRICE''\<rparr>]"
    by (auto simp: upper_btcusdt)
  from lo mi show ?thesis
    by simp
qed

theorem trailing_stop_failure_is_fatal_witness:
  "fst (webhook (server (rejecting_trailing_stops flat_exchange))
          (signal (long_signal @
             [(''lev'', JNum 10), (''usdt'', JNum 100), (''tsl'', JStr ''1.5'')])) started) =
     \<lparr>status_code = 500,
      payload = ErrorBody (MsgException (BinanceAPIException (- 2021) ''would trigger''))\<rparr> \<and>
   map fst (events (snd (webhook (server (rejecting_trailing_stops flat_exchange))
          (signal (long_signal @
             [(''lev'', JNum 10), (''usdt'', JNum 100), (''tsl'', JStr ''1.5'')])) started))) =
     [PositionInformation ''BTCUSDT'', ExchangeInfo, ChangeLeverage ''BTCUSDT'' 10,
      MarkPrice ''BTCUSDT'', CreateOrder (market_order ''BTCUSDT'' BUY (binary64 (1 / 50))),
      CreateOrder (trailing_stop_order ''BTCUSDT'' BUY (binary64 (1 / 50)) (3 / 2))]"
proof -
  let ?env = "server (rejecting_trailing_stops flat_exchange)"
  let ?mid = "long_signal @ [(''lev'', JNum 10), (''usdt'', JNum 100), (''tsl'', JStr ''1.5'')]"
  let ?s1 = "snd (close_position_for_symbol ?env (upper ''btcusdt'')
                    (log_to INFO LogWebhookReceived started))"
  let ?s2 = "snd (open_sizing ?env (map_of ?mid) (upper ''btcusdt'') (upper ''long'') ?s1)"
  have h1: "signal ?mid = Some (JObj (map_of ?mid))"
    by (simp add: signal_def)
  have h2: "map_of ?mid ''secret'' = Some (JStr (WEBHOOK_SECRET ?env))"
    by (simp add: scen_defs)
  have h3: "map_of ?mid ''symbol'' = Some (JStr ''btcusdt'')"
    by (simp add: scen_defs)
  have h4: "map_of ?mid ''side'' = Some (JStr ''long'')"
    by (simp add: scen_defs)
  have h5: "upper ''long'' \<in> set [''LONG'', ''BUY'', ''SHORT'', ''SELL'']"
    by (simp add: upper_long)
  have h6: "close_position_for_symbol ?env (upper ''btcusdt'')
      (log_to INFO LogWebhookReceived started) = ((True, NoPositionToClose), ?s1)"
    by (simp add: eval_defs act_defs scen_defs Let_def float_evals)
  have h7: "open_sizing ?env (map_of ?mid) (upper ''btcusdt'') (upper ''long'') ?s1 =
      (Inr (BUY, 3 / 2, binary64 (1 / 50), binary64 (1 / 50)), ?s2)"
    by (simp add: eval_defs act_defs scen_defs Let_def float_evals)
  have h8: "0 < binary64 (1 / 50)"
    by (simp add: float_comparisons)
  have ev: "map fst (events ?s2) = [PositionInformation ''BTCUSDT'', ExchangeInfo,
      ChangeLeverage ''BTCUSDT'' 10, MarkPrice ''BTCUSDT'']"
    by (simp add: eval_defs act_defs scen_defs Let_def float_evals)
  have h9: "futures_create_order (client ?env) (events ?s2)
      (market_order (upper ''btcusdt'') BUY (binary64 (1 / 50))) = Inr 1004"
    by (simp add: eval_defs act_defs scen_defs Let_def float_evals)
  have h10: "(1::real) / 10 \<le> 3 / 2 \<and> (3::real) / 2 \<le> 5"
    by simp
  have h11: "futures_create_order (client ?env)
      (events ?s2 @ [(CreateOrder (market_order (upper ''btcusdt'') BUY (binary64 (1 / 50))), OrderAck 1004)])
      (trailing_stop_order (upper ''btcusdt'') BUY (binary64 (1 / 50)) (3 / 2)) =
      Inl (BinanceAPIException (- 2021) ''would trigger'')"
    by (simp add: scen_defs trailing_stop_order_def)
  have h12: "webhook ?env (signal ?mid) started =
      (fst (webhook ?env (signal ?mid) started), snd (webhook ?env (signal ?mid) started))"
    by simp
  from trailing_stop_failure_is_fatal [OF h1 h2 h3 h4 h5 h6 h7 h8 h9 h10 h11 h12] ev
  show ?thesis
    by (simp add: upper_btcusdt)
qed

text \<open>The claim as written fails: the entry order is acknowledged, the trailing stop is
  rejected, and the response is not the success.\<close>

theorem trailing_stop_failure_counterexample:
  "status_code (fst (webhook (server (rejecting_trailing_stops flat_exchange))
          (signal (long_signal @
             [(''lev'', JNum 10), (''usdt'', JNum 100), (''tsl'', JNum (3 / 2))])) started)) = 500 \<and>
   (CreateOrder (market_order ''BTCUSDT'' BUY (binary64 (1 / 50))), OrderAck 1004) \<in>
     set (events (snd (webhook (server (rejecting_trailing_stops flat_exchange))
          (signal (long_signal @
             [(''lev'', JNum 10), (''usdt'', JNum 100), (''tsl'', JNum (3 / 2))])) started)))"
  by (simp add: eval_defs act_defs scen_defs Let_def float_evals)



section \<open>Fields read after the close step\<close>





section \<open>Symbol filters that cannot be had\<close>

lemma get_symbol_info_api_error:
  assumes "symbol_info_cache s symbol = None"
    and "futures_exchange_info (client env) (events s) = Inl (BinanceAPIException c m)"
  shows "get_symbol_info env symbol s =
           (Inr None,
            log_to ERROR (LogFilterError symbol (BinanceAPIException c m))
              (log_to INFO (LogFetchingFilters symbol) s)
                \<lparr>events := events s @ [(ExchangeInfo, Raised (BinanceAPIException c m))]\<rparr>)"
  using assms
  by (simp add: get_symbol_info_def fetch_filters_def act_defs Let_def)

lemma get_symbol_info_absent:
  assumes "symbol_info_cache s symbol = None"
    and "futures_exchange_info (client env) (events s) = Inr entries"
    and "find (\<lambda>e. s_symbol e = symbol) entries = None"
  shows "get_symbol_info env symbol s =
           (Inl (KeyError symbol),
            (log_to INFO (LogFetchingFilters symbol) s)
              \<lparr>events := events s @ [(ExchangeInfo, Instruments entries)]\<rparr>)"
  using assms
  by (simp add: get_symbol_info_def fetch_filters_def store_filters_def act_defs Let_def)

lemma sizing_reaches_info:
  assumes "data ''lev'' = Some lev" and "py_float (float_of_str env) lev = Inr lev_float"
    and "data ''usdt'' = Some usdt" and "py_float (float_of_str env) usdt = Inr usdt_amount"
    and "py_float (float_of_str env) (case data ''tsl'' of None \<Rightarrow> JNum 0 | Some v \<Rightarrow> v) =
           Inr tsl_percent"
    and "get_symbol_info env symbol s = (r, s')"
  shows "r = Inl e \<longrightarrow> open_sizing env data symbol action s = (Inl e, s')"
    and "r = Inr None \<longrightarrow>
           open_sizing env data symbol action s = (Inl (ValueError (NoSymbolInfo symbol)), s')"
  using assms
  by (simp_all add: open_sizing_def get_item_def ret_def raise_def lift_def bnd_def Let_def)

text \<open>
  C4, amended. Take a directional request whose close step succeeded, whose numeric fields
  convert, and whose symbol is not cached. When the instrument-list call raises an API
  error, \<^verbatim>\<open>get_symbol_info\<close> returns \<^verbatim>\<open>None\<close>, and the request ends with a 400
  response naming the symbol; when the call returns a list that lacks the symbol, the
  request ends with a 400 response as well. In both cases the instrument-list call is the
  only call after the close step: no leverage change, no mark-price fetch, no order.
\<close>

theorem missing_filters_rejected:
  assumes "request_json = Some (JObj data)"
    and "data ''secret'' = Some (JStr (WEBHOOK_SECRET env))"
    and "data ''symbol'' = Some (JStr raw_symbol)"
    and "data ''side'' = Some (JStr raw_side)"
    and "upper raw_side \<in> set [''LONG'', ''BUY'', ''SHORT'', ''SELL'']"
    and "close_position_for_symbol env (upper raw_symbol) (log_to INFO LogWebhookReceived s) =
           ((True, detail), s1)"
    and "data ''lev'' = Some lev" and "py_float (float_of_str env) lev = Inr lev_float"
    and "data ''usdt'' = Some usdt" and "py_float (float_of_str env) usdt = Inr usdt_amount"
    and "py_float (float_of_str env) (case data ''tsl'' of None \<Rightarrow> JNum 0 | Some v \<Rightarrow> v) =
           Inr tsl_percent"
    and "symbol_info_cache s (upper raw_symbol) = None"
    and "webhook env request_json s = (resp, s')"
  shows "(\<forall>c m. futures_exchange_info (client env) (events s1) = Inl (BinanceAPIException c m) \<longrightarrow>
            fst (get_symbol_info env (upper raw_symbol) s1) = Inr None \<and>
            resp = \<lparr>status_code = 400,
                    payload = ErrorBody (MsgInvalidOpenData
                                (ValueError (NoSymbolInfo (upper raw_symbol))))\<rparr> \<and>
            events s' = events s1 @ [(ExchangeInfo, Raised (BinanceAPIException c m))]) \<and>
         (\<forall>entries. futures_exchange_info (client env) (events s1) = Inr entries \<and>
            find (\<lambda>e. s_symbol e = upper raw_symbol) entries = None \<longrightarrow>
            status_code resp = 400 \<and>
            events s' = events s1 @ [(ExchangeInfo, Instruments entries)])"
proof -
  note w = webhook_opening [OF assms(1-6)]
  from close_cache [OF assms(6)] assms(12)
  have cache: "symbol_info_cache s1 (upper raw_symbol) = None"
    by (simp add: cache_log_to)
  have api: "fst (get_symbol_info env (upper raw_symbol) s1) = Inr None \<and>
            resp = \<lparr>status_code = 400,
                    payload = ErrorBody (MsgInvalidOpenData
                                (ValueError (NoSymbolInfo (upper raw_symbol))))\<rparr> \<and>
            events s' = events s1 @ [(ExchangeInfo, Raised (BinanceAPIException c m))]"
    if f: "futures_exchange_info (client env) (events s1) = Inl (BinanceAPIException c m)"
    for c m
  proof -
    note g = get_symbol_info_api_error [OF cache f]
    from sizing_reaches_info(2) [OF assms(7-11) g, of "upper raw_side"]
    have "open_sizing env data (upper raw_symbol) (upper raw_side) s1 =
        (Inl (ValueError (NoSymbolInfo (upper raw_symbol))),
         log_to ERROR (LogFilterError (upper raw_symbol) (BinanceAPIException c m))
           (log_to INFO (LogFetchingFilters (upper raw_symbol)) s1)
             \<lparr>events := events s1 @ [(ExchangeInfo, Raised (BinanceAPIException c m))]\<rparr>)"
      by simp
    with w assms(13) g show ?thesis
      by (auto simp: open_try_def bnd_def log_to_def)
  qed
  have absent: "status_code resp = 400 \<and>
            events s' = events s1 @ [(ExchangeInfo, Instruments entries)]"
    if f: "futures_exchange_info (client env) (events s1) = Inr entries"
      and n: "find (\<lambda>e. s_symbol e = upper raw_symbol) entries = None"
    for entries
  proof -
    note g = get_symbol_info_absent [OF cache f n]
    from sizing_reaches_info(1) [OF assms(7-11) g, of "KeyError (upper raw_symbol)" "upper raw_side"]
    have "open_sizing env data (upper raw_symbol) (upper raw_side) s1 =
        (Inl (KeyError (upper raw_symbol)),
         (log_to INFO (LogFetchingFilters (upper raw_symbol)) s1)
           \<lparr>events := events s1 @ [(ExchangeInfo, Instruments entries)]\<rparr>)"
      by simp
    with w assms(13) show ?thesis
      by (auto simp: open_try_def bnd_def log_to_def)
  qed
  from api absent show ?thesis
    by blast
qed

theorem missing_filters_rejected_witness:
  "fst (webhook (server (without_instruments flat_exchange))
          (signal (long_signal @ [(''lev'', JNum 10), (''usdt'', JNum 100)])) started) =
     \<lparr>status_code = 400,
      payload = ErrorBody (MsgInvalidOpenData (ValueError (NoSymbolInfo ''BTCUSDT'')))\<rparr> \<and>
   map fst (events (snd (webhook (server (without_instruments flat_exchange))
          (signal (long_signal @ [(''lev'', JNum 10), (''usdt'', JNum 100)])) started))) =
     [PositionInformation ''BTCUSDT'', ExchangeInfo]"
proof -
  let ?env = "server (without_instruments flat_exchange)"
  let ?items = "long_signal @ [(''lev'', JNum 10), (''usdt'', JNum 100)]"
  let ?s1 = "snd (close_position_for_symbol ?env (upper ''btcusdt'')
                    (log_to INFO LogWebhookReceived started))"
  have h1: "signal ?items = Some (JObj (map_of ?items))"
    by (simp add: signal_def)
  have h2: "map_of ?items ''secret'' = Some (JStr (WEBHOOK_SECRET ?env))"
    by (simp add: scen_defs)
  have h3: "map_of ?items ''symbol'' = Some (JStr ''btcusdt'')"
    by (simp add: scen_defs)
  have h4: "map_of ?items ''side'' = Some (JStr ''long'')"
    by (simp add: scen_defs)
  have h5: "upper ''long'' \<in> set [''LONG'', ''BUY'', ''SHORT'', ''SELL'']"
    by (simp add: upper_long)
  have h6: "close_position_for_symbol ?env (upper ''btcusdt'')
      (log_to INFO LogWebhookReceived started) = ((True, NoPositionToClose), ?s1)"
    by (simp add: eval_defs act_defs scen_defs Let_def float_evals)
  have ev: "map fst (events ?s1) = [PositionInformation ''BTCUSDT'']"
    by (simp add: eval_defs act_defs scen_defs Let_def float_evals)
  have h7: "map_of ?items ''lev'' = Some (JNum 10)"
    by (simp add: scen_defs)
  have h8: "py_float (float_of_str ?env) (JNum 10) = Inr 10"
    by (simp add: float_evals)
  have h9: "map_of ?items ''usdt'' = Some (JNum 100)"
    by (simp add: scen_defs)
  have h10: "py_float (float_of_str ?env) (JNum 100) = Inr 100"
    by (simp add: float_evals)
  have h11: "py_float (float_of_str ?env)
      (case map_of ?items ''tsl'' of None \<Rightarrow> JNum 0 | Some v \<Rightarrow> v) = Inr 0"
    by (simp add: scen_defs float_evals)
  have h12: "symbol_info_cache started (upper ''btcusdt'') = None"
    by (simp add: started_def)
  have h13: "webhook ?env (signal ?items) started =
      (fst (webhook ?env (signal ?items) started), snd (webhook ?env (signal ?items) started))"
    by simp
  have f: "futures_exchange_info (client ?env) (events ?s1) =
      Inl (BinanceAPIException (- 1001) ''disconnected'')"
    by (simp add: scen_defs)
  from missing_filters_rejected [OF h1 h2 h3 h4 h5 h6 h7 h8 h9 h10 h11 h12 h13] f ev
  show ?thesis
    by (simp add: upper_btcusdt)
qed

text \<open>The claim as written fails: when the instrument list is unavailable, and when it
  lacks the symbol, the response is a 400, not a 500.\<close>

theorem missing_filters_counterexample:
  "status_code (fst (webhook (server (without_instruments flat_exchange))
          (signal (long_signal @ [(''lev'', JNum 10), (''usdt'', JNum 100)])) started)) = 400 \<and>
   status_code (fst (webhook (server flat_exchange)
          (signal [(''secret'', JStr ''s3cr3t''), (''symbol'', JStr ''ethusdt''),
                   (''side'', JStr ''long''), (''lev'', JNum 10), (''usdt'', JNum 100)])
          started)) = 400"
  by (simp add: eval_defs act_defs scen_defs Let_def float_evals)



section \<open>Rejections of the opening phase\<close>













section \<open>Validation and the exchange\<close>








section \<open>Quantity normalisation\<close>

lemma not_below_tenth:
  "\<not> binary64 (1 / 10) \<le> 0" "\<not> binary64 (9 / 10) < binary64 (1 / 10)"
  by (simp_all add: binary64_tenth binary64_9_10)

text \<open>
  C6. The claim asks that \<^verbatim>\<open>adjust_quantity\<close> truncate the raw quantity downward to
  the precision of the step size, never rounding up. The code does not at the quantity
  0.8999999999999999 (the double \<open>2026619832316723 / 2\<^sup>5\<^sup>1\<close>) with step size and minimum
  quantity 0.1. The precision is 1 and the exact product with 10 lies below 9, so that
  truncation gives 0.8; but the float product is rounded to 9 before \<^verbatim>\<open>math.floor\<close>
  sees it, and the function returns the double 0.9, which is above the raw quantity.
\<close>

theorem adjust_quantity_rounds_up:
  "binary64 (2026619832316723 / 2251799813685248) = 2026619832316723 / 2251799813685248 \<and>
   \<lfloor>(2026619832316723 / 2251799813685248) * (10::real)\<rfloor> = 8 \<and>
   fst (adjust_quantity (2026619832316723 / 2251799813685248) (binary64 (1 / 10))
          (binary64 (1 / 10)) s) = Inr (binary64 (9 / 10)) \<and>
   2026619832316723 / 2251799813685248 < binary64 (9 / 10)"
proof -
  have input: "binary64 (2026619832316723 / 2251799813685248) =
      2026619832316723 / 2251799813685248"
    using binary64_scaled [of "2026619832316723 / 2251799813685248" 53]
    by (simp add: py_round_def)
  have exact: "\<lfloor>(2026619832316723 / 2251799813685248) * (10::real)\<rfloor> = 8"
    by simp
  have product: "binary64 (10133099161583615 / 1125899906842624) = 9"
    using scaled_tie by simp
  have result: "fst (adjust_quantity (2026619832316723 / 2251799813685248) (binary64 (1 / 10))
      (binary64 (1 / 10)) s) = Inr (binary64 (9 / 10))"
    by (simp add: adjust_quantity_def math_log10_def act_defs Let_def precision_tenth
        binary64_10 product not_below_tenth)
  have above: "2026619832316723 / 2251799813685248 < binary64 (9 / 10)"
    by (simp add: binary64_9_10)
  from input exact result above show ?thesis
    by simp
qed

end
